theory Spec2Isabelle
  imports Main "HOL-Library.Word"
begin

unbundle bit_operations_syntax

section \<open>RNTupleSerialize: memory, pointers and errors\<close>

text \<open>
  The serializer writes through raw pointers (\<^verbatim>\<open>void *buffer\<close>) and patches bytes it has
  written before, so the model threads an explicit byte store. A pointer is an address;
  address \<open>0\<close> is \<^verbatim>\<open>nullptr\<close>. The store is total: as in the C++ code, no access checks
  that the address lies in a buffer the caller owns. A fixed-width integer is a word; the
  signed and the unsigned type of one width are the same word type, compared with \<open><s\<close> and
  \<open>\<le>s\<close> where the source compares signed values and with \<open><\<close> and \<open>\<le>\<close> where it compares
  unsigned ones.
\<close>

type_synonym byte = "8 word"
type_synonym ptr = nat
type_synonym mem = "nat \<Rightarrow> byte"

type_synonym int16_t = "16 word"
type_synonym uint16_t = "16 word"
type_synonym int32_t = "32 word"
type_synonym uint32_t = "32 word"
type_synonym int64_t = "64 word"
type_synonym uint64_t = "64 word"

text \<open>
  Every \<^verbatim>\<open>throw RException(R__FAIL(...))\<close> of the source, named after its message, and
  \<open>Out_of_range\<close> for the \<^verbatim>\<open>std::out_of_range\<close> of \<^verbatim>\<open>std::map::at\<close>.
\<close>

datatype error =
    Checksum_mismatch
  | Buffer_too_short
  | Unexpected_column_type
  | Unexpected_field_structure
  | Invalid_envelope_too_short
  | Format_too_old
  | Format_too_new
  | List_frame_too_large
  | Frame_too_large
  | Frame_too_short
  | Corrupt_frame_size
  | Feature_flag_out_of_bounds
  | Locator_too_large
  | Too_short_locator
  | Unsupported_locator_type
  | Too_short_cluster_summary
  | Too_short_cluster_group
  | Out_of_range

section \<open>Fixed-width integers\<close>

text \<open>
  A serialize function returns the number of bytes and the store after the call; with a
  null buffer the store is unchanged. A deserialize function returns the number of bytes
  and the value read. The unsigned variants convert to the signed type and call the signed
  function; on words that conversion is the identity.
\<close>

definition SerializeInt16 :: "int16_t \<Rightarrow> ptr \<Rightarrow> mem \<Rightarrow> uint32_t \<times> mem" where
  "SerializeInt16 val buffer m =
     (if buffer \<noteq> 0
      then (2, m(buffer := ucast (val AND 0x00FF),
                 buffer + 1 := ucast (drop_bit 8 (val AND 0xFF00))))
      else (2, m))"

definition DeserializeInt16 :: "mem \<Rightarrow> ptr \<Rightarrow> uint32_t \<times> int16_t" where
  "DeserializeInt16 m buffer =
     (2, ucast (m buffer) + push_bit 8 (ucast (m (buffer + 1))))"

definition SerializeUInt16 :: "uint16_t \<Rightarrow> ptr \<Rightarrow> mem \<Rightarrow> uint32_t \<times> mem" where
  "SerializeUInt16 val buffer m = SerializeInt16 val buffer m"

definition DeserializeUInt16 :: "mem \<Rightarrow> ptr \<Rightarrow> uint32_t \<times> uint16_t" where
  "DeserializeUInt16 m buffer = DeserializeInt16 m buffer"

definition SerializeInt32 :: "int32_t \<Rightarrow> ptr \<Rightarrow> mem \<Rightarrow> uint32_t \<times> mem" where
  "SerializeInt32 val buffer m =
     (if buffer \<noteq> 0
      then (4, m(buffer := ucast (val AND 0x000000FF),
                 buffer + 1 := ucast (drop_bit 8 (val AND 0x0000FF00)),
                 buffer + 2 := ucast (drop_bit 16 (val AND 0x00FF0000)),
                 buffer + 3 := ucast (drop_bit 24 (val AND 0xFF000000))))
      else (4, m))"

definition DeserializeInt32 :: "mem \<Rightarrow> ptr \<Rightarrow> uint32_t \<times> int32_t" where
  "DeserializeInt32 m buffer =
     (4, ucast (m buffer) + push_bit 8 (ucast (m (buffer + 1))) +
         push_bit 16 (ucast (m (buffer + 2))) + push_bit 24 (ucast (m (buffer + 3))))"

definition SerializeUInt32 :: "uint32_t \<Rightarrow> ptr \<Rightarrow> mem \<Rightarrow> uint32_t \<times> mem" where
  "SerializeUInt32 val buffer m = SerializeInt32 val buffer m"

definition DeserializeUInt32 :: "mem \<Rightarrow> ptr \<Rightarrow> uint32_t \<times> uint32_t" where
  "DeserializeUInt32 m buffer = DeserializeInt32 m buffer"

definition SerializeInt64 :: "int64_t \<Rightarrow> ptr \<Rightarrow> mem \<Rightarrow> uint32_t \<times> mem" where
  "SerializeInt64 val buffer m =
     (if buffer \<noteq> 0
      then (8, m(buffer := ucast (val AND 0x00000000000000FF),
                 buffer + 1 := ucast (drop_bit 8 (val AND 0x000000000000FF00)),
                 buffer + 2 := ucast (drop_bit 16 (val AND 0x0000000000FF0000)),
                 buffer + 3 := ucast (drop_bit 24 (val AND 0x00000000FF000000)),
                 buffer + 4 := ucast (drop_bit 32 (val AND 0x000000FF00000000)),
                 buffer + 5 := ucast (drop_bit 40 (val AND 0x0000FF0000000000)),
                 buffer + 6 := ucast (drop_bit 48 (val AND 0x00FF000000000000)),
                 buffer + 7 := ucast (drop_bit 56 (val AND 0xFF00000000000000))))
      else (8, m))"

definition DeserializeInt64 :: "mem \<Rightarrow> ptr \<Rightarrow> uint32_t \<times> int64_t" where
  "DeserializeInt64 m buffer =
     (8, ucast (m buffer) + push_bit 8 (ucast (m (buffer + 1))) +
         push_bit 16 (ucast (m (buffer + 2))) + push_bit 24 (ucast (m (buffer + 3))) +
         push_bit 32 (ucast (m (buffer + 4))) + push_bit 40 (ucast (m (buffer + 5))) +
         push_bit 48 (ucast (m (buffer + 6))) + push_bit 56 (ucast (m (buffer + 7))))"

definition SerializeUInt64 :: "uint64_t \<Rightarrow> ptr \<Rightarrow> mem \<Rightarrow> uint32_t \<times> mem" where
  "SerializeUInt64 val buffer m = SerializeInt64 val buffer m"

definition DeserializeUInt64 :: "mem \<Rightarrow> ptr \<Rightarrow> uint32_t \<times> uint64_t" where
  "DeserializeUInt64 m buffer = DeserializeInt64 m buffer"


section \<open>Raw memory and strings\<close>

text \<open>\<^verbatim>\<open>memcpy(dest, src, n)\<close> with the source bytes given as a list, and a read of \<open>n\<close> bytes.\<close>

definition memcpy :: "ptr \<Rightarrow> byte list \<Rightarrow> mem \<Rightarrow> mem" where
  "memcpy dest src m = (\<lambda>a. if dest \<le> a \<and> a < dest + length src then src ! (a - dest) else m a)"

definition mem_read :: "mem \<Rightarrow> ptr \<Rightarrow> nat \<Rightarrow> byte list" where
  "mem_read m p n = map m [p ..< p + n]"

text \<open>
  Every serializer that writes several items uses the idiom
  \<^verbatim>\<open>void** where = (buffer == nullptr) ? &buffer : reinterpret_cast<void**>(&pos);\<close>
  so that \<^verbatim>\<open>*where\<close> is the null buffer in a size-only run and the current position otherwise.
\<close>

definition where_ptr :: "ptr \<Rightarrow> ptr \<Rightarrow> ptr" where
  "where_ptr buffer pos = (if buffer = 0 then buffer else pos)"

definition SerializeString :: "string \<Rightarrow> ptr \<Rightarrow> mem \<Rightarrow> uint32_t \<times> mem" where
  "SerializeString val buffer m =
     (if buffer \<noteq> 0 then
        (let pos = buffer;
             (n, m) = SerializeUInt32 (of_nat (length val)) pos m;
             pos = pos + unat n;
             m = memcpy pos (map of_char val) m
         in (of_nat (4 + length val), m))
      else (of_nat (4 + length val), m))"

section \<open>Checksums\<close>

text \<open>
  \<^verbatim>\<open>R__crc32\<close> comes from \<^verbatim>\<open>RZip.h\<close>, outside this file; the codec takes it as the function
  \<open>crc\<close> from a seed and the bytes to a checksum. \<^verbatim>\<open>R__crc32(0, nullptr, 0)\<close> is \<open>crc 0 []\<close>.
\<close>

type_synonym crc32_fn = "uint32_t \<Rightarrow> byte list \<Rightarrow> uint32_t"

definition SerializeCRC32 :: "crc32_fn \<Rightarrow> ptr \<Rightarrow> uint32_t \<Rightarrow> ptr \<Rightarrow> mem \<Rightarrow> uint32_t \<times> mem" where
  "SerializeCRC32 crc data len buffer m =
     (if buffer \<noteq> 0 then
        (let checksum = crc 0 [];
             checksum = crc checksum (mem_read m data (unat len))
         in (4, snd (SerializeUInt32 checksum buffer m)))
      else (4, m))"

definition VerifyCRC32 :: "crc32_fn \<Rightarrow> mem \<Rightarrow> ptr \<Rightarrow> uint32_t \<Rightarrow> error + unit" where
  "VerifyCRC32 crc m data len =
     (let checksumReal = crc 0 [];
          checksumReal = crc checksumReal (mem_read m data (unat len));
          checksumFound = snd (DeserializeUInt32 m (data + unat len))
      in if checksumFound \<noteq> checksumReal then Inl Checksum_mismatch else Inr ())"

text \<open>
  Modelled from the spec: the checksum primitive itself is not part of the source file; the
  spec calls it CRC-32. This is the bitwise CRC-32 of zlib (reflected polynomial
  \<open>0xEDB88320\<close>), used only to instantiate \<open>crc\<close> in closed examples.
\<close>

fun crc32_bits :: "nat \<Rightarrow> uint32_t \<Rightarrow> uint32_t" where
  "crc32_bits 0 c = c"
| "crc32_bits (Suc k) c =
     crc32_bits k (if bit c 0 then drop_bit 1 c XOR 0xEDB88320 else drop_bit 1 c)"

fun crc32_bytes :: "uint32_t \<Rightarrow> byte list \<Rightarrow> uint32_t" where
  "crc32_bytes c [] = c"
| "crc32_bytes c (b # bs) = crc32_bytes (crc32_bits 8 (c XOR ucast b)) bs"

definition crc32_zlib :: crc32_fn where
  "crc32_zlib seed bs = NOT (crc32_bytes (NOT seed) bs)"

section \<open>Enumerations\<close>

text \<open>
  The enumerators are those the source names; the enum declarations themselves are outside
  the file. The \<^verbatim>\<open>default:\<close> branches of the two serializers throw for any other value and
  are not reachable from these.
\<close>

datatype EColumnType =
  kIndex | kSwitch | kByte | kBit | kReal64 | kReal32 | kReal16 | kInt64 | kInt32 | kInt16

datatype ENTupleStructure = kLeaf | kCollection | kRecord | kVariant | kReference

fun SerializeColumnType :: "EColumnType \<Rightarrow> ptr \<Rightarrow> mem \<Rightarrow> uint16_t \<times> mem" where
  "SerializeColumnType kIndex buffer m = (let (n, m) = SerializeUInt16 0x02 buffer m in (ucast n, m))"
| "SerializeColumnType kSwitch buffer m = (let (n, m) = SerializeUInt16 0x03 buffer m in (ucast n, m))"
| "SerializeColumnType kByte buffer m = (let (n, m) = SerializeUInt16 0x0D buffer m in (ucast n, m))"
| "SerializeColumnType kBit buffer m = (let (n, m) = SerializeUInt16 0x06 buffer m in (ucast n, m))"
| "SerializeColumnType kReal64 buffer m = (let (n, m) = SerializeUInt16 0x07 buffer m in (ucast n, m))"
| "SerializeColumnType kReal32 buffer m = (let (n, m) = SerializeUInt16 0x08 buffer m in (ucast n, m))"
| "SerializeColumnType kReal16 buffer m = (let (n, m) = SerializeUInt16 0x09 buffer m in (ucast n, m))"
| "SerializeColumnType kInt64 buffer m = (let (n, m) = SerializeUInt16 0x0A buffer m in (ucast n, m))"
| "SerializeColumnType kInt32 buffer m = (let (n, m) = SerializeUInt16 0x0B buffer m in (ucast n, m))"
| "SerializeColumnType kInt16 buffer m = (let (n, m) = SerializeUInt16 0x0C buffer m in (ucast n, m))"

fun SerializeFieldStructure :: "ENTupleStructure \<Rightarrow> ptr \<Rightarrow> mem \<Rightarrow> uint16_t \<times> mem" where
  "SerializeFieldStructure kLeaf buffer m = (let (n, m) = SerializeUInt16 0x00 buffer m in (ucast n, m))"
| "SerializeFieldStructure kCollection buffer m = (let (n, m) = SerializeUInt16 0x01 buffer m in (ucast n, m))"
| "SerializeFieldStructure kRecord buffer m = (let (n, m) = SerializeUInt16 0x02 buffer m in (ucast n, m))"
| "SerializeFieldStructure kVariant buffer m = (let (n, m) = SerializeUInt16 0x03 buffer m in (ucast n, m))"
| "SerializeFieldStructure kReference buffer m = (let (n, m) = SerializeUInt16 0x04 buffer m in (ucast n, m))"

section \<open>Envelopes\<close>

definition kEnvelopeCurrentVersion :: uint16_t where "kEnvelopeCurrentVersion = 1"
definition kEnvelopeMinVersion :: uint16_t where "kEnvelopeMinVersion = 1"

definition SerializeEnvelopePreamble :: "ptr \<Rightarrow> mem \<Rightarrow> uint32_t \<times> mem" where
  "SerializeEnvelopePreamble buffer m =
     (let base = (if buffer \<noteq> 0 then buffer else 0);
          pos = base;
          (n, m) = SerializeUInt16 kEnvelopeCurrentVersion (where_ptr buffer pos) m;
          pos = pos + unat n;
          (n, m) = SerializeUInt16 kEnvelopeMinVersion (where_ptr buffer pos) m;
          pos = pos + unat n
      in (of_nat (pos - base), m))"

definition SerializeEnvelopePostscript ::
  "crc32_fn \<Rightarrow> ptr \<Rightarrow> uint32_t \<Rightarrow> ptr \<Rightarrow> mem \<Rightarrow> uint32_t \<times> mem" where
  "SerializeEnvelopePostscript crc envelope sz buffer m = SerializeCRC32 crc envelope sz buffer m"

definition DeserializeEnvelope :: "crc32_fn \<Rightarrow> mem \<Rightarrow> ptr \<Rightarrow> uint32_t \<Rightarrow> error + uint32_t" where
  "DeserializeEnvelope crc m buffer bufSize =
     (if bufSize < 2 * 2 + 4 then Inl Invalid_envelope_too_short
      else
        let bytes = buffer in
        case VerifyCRC32 crc m bytes (bufSize - 4) of
          Inl e \<Rightarrow> Inl e
        | Inr _ \<Rightarrow>
            let (n, protocolVersionAtWrite) = DeserializeUInt16 m bytes;
                bytes = bytes + unat n
            in if protocolVersionAtWrite < 1 then Inl Format_too_old
               else
                 let (n, protocolVersionMinRequired) = DeserializeUInt16 m bytes;
                     bytes = bytes + unat n
                 in if protocolVersionMinRequired > kEnvelopeCurrentVersion then Inl Format_too_new
                    else Inr (2 + 2))"

definition ExtractEnvelopeCRC32 :: "mem \<Rightarrow> ptr \<Rightarrow> uint32_t \<Rightarrow> error + uint32_t" where
  "ExtractEnvelopeCRC32 m data bufSize =
     (if bufSize < 2 * 2 + 4 then Inl Invalid_envelope_too_short
      else Inr (snd (DeserializeUInt32 m (data + unat bufSize - 4))))"

section \<open>Frames\<close>

definition SerializeRecordFramePreamble :: "ptr \<Rightarrow> mem \<Rightarrow> uint32_t \<times> mem" where
  "SerializeRecordFramePreamble buffer m = SerializeInt32 1 buffer m"

definition SerializeListFramePreamble :: "uint32_t \<Rightarrow> ptr \<Rightarrow> mem \<Rightarrow> error + uint32_t \<times> mem" where
  "SerializeListFramePreamble nitems buffer m =
     (if nitems \<ge> push_bit 28 1 then Inl List_frame_too_large
      else
        let base = (if buffer \<noteq> 0 then buffer else 0);
            pos = base;
            (n, m) = SerializeInt32 (- 1) (where_ptr buffer pos) m;
            pos = pos + unat n;
            (n, m) = SerializeUInt32 nitems (where_ptr buffer pos) m;
            pos = pos + unat n
        in Inr (of_nat (pos - base), m))"

text \<open>
  The parameter \<^verbatim>\<open>size\<close> (here \<open>sz\<close>) is a signed 32-bit integer, so the comparisons on
  it are signed.
\<close>

definition SerializeFramePostscript :: "ptr \<Rightarrow> int32_t \<Rightarrow> mem \<Rightarrow> error + uint32_t \<times> mem" where
  "SerializeFramePostscript frame sz m =
     (if sz <s 0 then Inl Frame_too_large
      else if sz <s 4 then Inl Frame_too_short
      else if frame \<noteq> 0 then
        (let marker = snd (DeserializeInt32 m frame)
         in if marker <s 0 \<and> sz <s 2 * 4 then Inl Frame_too_short
            else Inr (0, snd (SerializeInt32 (marker * sz) frame m)))
      else Inr (0, m))"

text \<open>
  \<^verbatim>\<open>DeserializeFrame\<close> returns the number of header bytes together with its two output
  parameters \<^verbatim>\<open>frameSize\<close> and \<^verbatim>\<open>nitems\<close>. The head is read into \<^verbatim>\<open>frameSize\<close> through a
  signed alias, so the sign test is signed and the size comparisons are unsigned.
\<close>

definition DeserializeFrame ::
  "mem \<Rightarrow> ptr \<Rightarrow> uint32_t \<Rightarrow> error + uint32_t \<times> uint32_t \<times> uint32_t" where
  "DeserializeFrame m buffer bufSize =
     (if bufSize < 4 then Inl Frame_too_short
      else
        let bytes = buffer;
            (n, ssize) = DeserializeInt32 m bytes;
            bytes = bytes + unat n
        in if 0 \<le>s ssize then
             (let nitems = 1; frameSize = ssize
              in if frameSize < 4 then Inl Corrupt_frame_size
                 else if bufSize < frameSize then Inl Frame_too_short
                 else Inr (of_nat (bytes - buffer), frameSize, nitems))
           else
             (if bufSize < 2 * 4 then Inl Frame_too_short
              else
                let (n, nitems) = DeserializeUInt32 m bytes;
                    bytes = bytes + unat n;
                    nitems = nitems AND (push_bit 28 2 - 1);
                    frameSize = - ssize
                in if frameSize < 2 * 4 then Inl Corrupt_frame_size
                   else if bufSize < frameSize then Inl Frame_too_short
                   else Inr (of_nat (bytes - buffer), frameSize, nitems)))"

section \<open>Feature flags\<close>

text \<open>
  The loop of \<^verbatim>\<open>SerializeFeatureFlags\<close> runs over the vector with the write position; the
  test \<^verbatim>\<open>i == flags.size() - 1\<close> is the test that no element follows. The loop counter of the
  source is an \<^verbatim>\<open>unsigned\<close> (32-bit) integer; the model runs over the list, which covers
  vectors of fewer than \<open>2^32\<close> flags.
\<close>

fun SerializeFeatureFlags_for :: "int64_t list \<Rightarrow> ptr \<Rightarrow> mem \<Rightarrow> error + mem" where
  "SerializeFeatureFlags_for [] bytes m = Inr m"
| "SerializeFeatureFlags_for (f # fs) bytes m =
     (if f <s 0 then Inl Feature_flag_out_of_bounds
      else if fs = [] then
        (let (n, m) = SerializeInt64 f bytes m
         in SerializeFeatureFlags_for fs bytes m)
      else
        (let (n, m) = SerializeInt64 (- f) bytes m;
             bytes = bytes + unat n
         in SerializeFeatureFlags_for fs bytes m))"

definition SerializeFeatureFlags :: "int64_t list \<Rightarrow> ptr \<Rightarrow> mem \<Rightarrow> error + uint32_t \<times> mem" where
  "SerializeFeatureFlags flags buffer m =
     (if flags = [] then Inr (SerializeInt64 0 buffer m)
      else if buffer \<noteq> 0 then
        (case SerializeFeatureFlags_for flags buffer m of
           Inl e \<Rightarrow> Inl e
         | Inr m \<Rightarrow> Inr (of_nat (length flags * 8), m))
      else Inr (of_nat (length flags * 8), m))"

text \<open>
  The source calls \<^verbatim>\<open>abs(f)\<close> unqualified. The file includes no header that declares an
  overload for 64-bit integers in the global namespace, so the call is C's
  \<^verbatim>\<open>int abs(int)\<close>: the \<^verbatim>\<open>std::int64_t\<close> argument is converted to \<^verbatim>\<open>int\<close> (its low 32 bits),
  and the \<^verbatim>\<open>int\<close> result is converted back to \<^verbatim>\<open>std::int64_t\<close> (sign-extended) when it is
  appended to the vector.
\<close>

definition abs_int :: "int32_t \<Rightarrow> int32_t" where
  "abs_int x = (if x <s 0 then - x else x)"

text \<open>
  The \<^verbatim>\<open>do ... while (f < 0)\<close> loop of \<^verbatim>\<open>DeserializeFeatureFlags\<close>; every iteration takes
  8 from the remaining size, which is checked first.
\<close>

function DeserializeFeatureFlags_do ::
  "mem \<Rightarrow> ptr \<Rightarrow> uint32_t \<Rightarrow> int64_t list \<Rightarrow> error + int64_t list" where
  "DeserializeFeatureFlags_do m bytes sz flags =
     (if sz < 8 then Inl Buffer_too_short
      else
        let (n, f) = DeserializeInt64 m bytes;
            bytes = bytes + unat n;
            sz = sz - 8;
            flags = flags @ [scast (abs_int (ucast f))]
        in if f <s 0 then DeserializeFeatureFlags_do m bytes sz flags
           else Inr flags)"
  by pat_completeness auto
termination
  by (relation "measure (\<lambda>(m, bytes, sz, flags). unat sz)")
     (auto simp: unat_sub word_le_nat_alt word_less_nat_alt not_less)

definition DeserializeFeatureFlags ::
  "mem \<Rightarrow> ptr \<Rightarrow> uint32_t \<Rightarrow> error + uint32_t \<times> int64_t list" where
  "DeserializeFeatureFlags m buffer sz =
     (case DeserializeFeatureFlags_do m buffer sz [] of
        Inl e \<Rightarrow> Inl e
      | Inr flags \<Rightarrow> Inr (of_nat (length flags * 8), flags))"

section \<open>Locators, envelope links, cluster summaries\<close>

text \<open>
  \<^verbatim>\<open>RNTupleLocator\<close> is declared in \<^verbatim>\<open>RNTupleUtil.hxx\<close>; its three members are the ones this
  file reads and writes.
\<close>

record RNTupleLocator =
  fPosition :: int64_t
  fBytesOnStorage :: uint32_t
  fUrl :: string

record REnvelopeLink =
  fUnzippedSize :: uint32_t
  fLocator :: RNTupleLocator

record RClusterSummary =
  fFirstEntry :: uint64_t
  fNEntries :: uint64_t
  fColumnGroupID :: int32_t

record RClusterGroup =
  fNClusters :: uint32_t
  fPageListEnvelopeLink :: REnvelopeLink

definition SerializeLocator :: "RNTupleLocator \<Rightarrow> ptr \<Rightarrow> mem \<Rightarrow> error + uint32_t \<times> mem" where
  "SerializeLocator locator buffer m =
     (let sz = (0 :: uint32_t) in
      if fUrl locator \<noteq> [] then
        (if length (fUrl locator) \<ge> 2 ^ 24 then Inl Locator_too_large
         else
           let head = (of_nat (length (fUrl locator)) :: int32_t);
               head = head OR push_bit 24 0x02;
               head = - head;
               (n, m) = SerializeInt32 head buffer m;
               sz = sz + n;
               m = (if buffer \<noteq> 0
                    then memcpy (buffer + unat sz) (map of_char (fUrl locator)) m
                    else m);
               sz = sz + of_nat (length (fUrl locator))
           in Inr (sz, m))
      else if fBytesOnStorage locator <s 0 then Inl Locator_too_large
      else
        let (n, m) = SerializeUInt32 (fBytesOnStorage locator) buffer m;
            sz = sz + n;
            (n, m) = SerializeUInt64 (fPosition locator)
                       (if buffer \<noteq> 0 then buffer + unat sz else 0) m;
            sz = sz + n
        in Inr (sz, m))"

text \<open>
  \<^verbatim>\<open>DeserializeLocator\<close> fills the locator passed by reference; both branches assign all
  three members, so the result does not depend on what it held before.
\<close>

definition DeserializeLocator ::
  "mem \<Rightarrow> ptr \<Rightarrow> uint32_t \<Rightarrow> error + uint32_t \<times> RNTupleLocator" where
  "DeserializeLocator m buffer bufSize =
     (if bufSize < 4 then Inl Too_short_locator
      else
        let bytes = buffer;
            (n, head) = DeserializeInt32 m bytes;
            bytes = bytes + unat n;
            bufSize = bufSize - 4
        in if head <s 0 then
             (let head = - head;
                  type = signed_drop_bit 24 head
              in if type \<noteq> 0x02 then Inl Unsupported_locator_type
                 else
                   let locatorSize = head AND 0x00FFFFFF
                   in if bufSize < locatorSize then Inl Too_short_locator
                      else
                        let locator = \<lparr>fPosition = 0, fBytesOnStorage = 0,
                                       fUrl = map (\<lambda>b. char_of (unat b))
                                              (mem_read m bytes (unat locatorSize))\<rparr>;
                            bytes = bytes + unat locatorSize
                        in Inr (of_nat (bytes - buffer), locator))
           else
             (if bufSize < 8 then Inl Too_short_locator
              else
                let (n, offset) = DeserializeUInt64 m bytes;
                    bytes = bytes + unat n;
                    locator = \<lparr>fPosition = offset, fBytesOnStorage = head, fUrl = []\<rparr>
                in Inr (of_nat (bytes - buffer), locator)))"

definition SerializeClusterSummary ::
  "RClusterSummary \<Rightarrow> ptr \<Rightarrow> mem \<Rightarrow> error + uint32_t \<times> mem" where
  "SerializeClusterSummary clusterSummary buffer m =
     (let base = (if buffer \<noteq> 0 then buffer else 0);
          pos = base;
          frame = pos;
          (n, m) = SerializeRecordFramePreamble (where_ptr buffer pos) m;
          pos = pos + unat n;
          (n, m) = SerializeUInt64 (fFirstEntry clusterSummary) (where_ptr buffer pos) m;
          pos = pos + unat n;
          (pos, m) =
            (if 0 \<le>s fColumnGroupID clusterSummary then
               (let (n, m) = SerializeInt64 (- fNEntries clusterSummary) (where_ptr buffer pos) m;
                    pos = pos + unat n;
                    (n, m) = SerializeUInt32 (fColumnGroupID clusterSummary) (where_ptr buffer pos) m;
                    pos = pos + unat n
                in (pos, m))
             else
               (let (n, m) = SerializeInt64 (fNEntries clusterSummary) (where_ptr buffer pos) m;
                    pos = pos + unat n
                in (pos, m)));
          sz = pos - frame
      in case SerializeFramePostscript frame (of_nat sz) m of
           Inl e \<Rightarrow> Inl e
         | Inr (n, m) \<Rightarrow> Inr (of_nat sz, m))"

definition DeserializeClusterSummary ::
  "mem \<Rightarrow> ptr \<Rightarrow> uint32_t \<Rightarrow> error + uint32_t \<times> RClusterSummary" where
  "DeserializeClusterSummary m buffer bufSize =
     (let bytes = buffer in
      case DeserializeFrame m bytes bufSize of
        Inl e \<Rightarrow> Inl e
      | Inr (frameHdrSize, frameSize, nitems) \<Rightarrow>
          let bytes = bytes + unat frameHdrSize;
              bufSize = frameSize - frameHdrSize
          in if bufSize < 2 * 8 then Inl Too_short_cluster_summary
             else
               let (n, firstEntry) = DeserializeUInt64 m bytes;
                   bytes = bytes + unat n;
                   bufSize = bufSize - 8;
                   (n, nEntries) = DeserializeInt64 m bytes;
                   bytes = bytes + unat n;
                   bufSize = bufSize - 8
               in if nEntries <s 0 then
                    (if bufSize < 4 then Inl Too_short_cluster_summary
                     else
                       let (n, columnGroupID) = DeserializeUInt32 m bytes
                       in Inr (frameSize,
                               \<lparr>fFirstEntry = firstEntry, fNEntries = - nEntries,
                                fColumnGroupID = columnGroupID\<rparr>))
                  else
                    Inr (frameSize,
                         \<lparr>fFirstEntry = firstEntry, fNEntries = nEntries, fColumnGroupID = - 1\<rparr>))"

section \<open>The serialization context\<close>

type_synonym DescriptorId_t = "64 word"

record RContext =
  fHeaderSize :: uint32_t
  fHeaderCrc32 :: uint32_t
  fClusterGroups :: "RClusterGroup list"
  fMem2PhysFieldIDs :: "DescriptorId_t \<rightharpoonup> DescriptorId_t"
  fMem2PhysColumnIDs :: "DescriptorId_t \<rightharpoonup> DescriptorId_t"
  fMem2PhysClusterIDs :: "DescriptorId_t \<rightharpoonup> DescriptorId_t"
  fPhys2MemFieldIDs :: "DescriptorId_t list"
  fPhys2MemColumnIDs :: "DescriptorId_t list"
  fPhys2MemClusterIDs :: "DescriptorId_t list"

text \<open>The default-constructed context of \<^verbatim>\<open>RContext context;\<close>.\<close>

definition RContext_default :: RContext where
  "RContext_default =
     \<lparr>fHeaderSize = 0, fHeaderCrc32 = 0, fClusterGroups = [],
      fMem2PhysFieldIDs = Map.empty, fMem2PhysColumnIDs = Map.empty,
      fMem2PhysClusterIDs = Map.empty,
      fPhys2MemFieldIDs = [], fPhys2MemColumnIDs = [], fPhys2MemClusterIDs = []\<rparr>"

definition SetHeaderSize :: "uint32_t \<Rightarrow> RContext \<Rightarrow> RContext" where
  "SetHeaderSize sz context = context\<lparr>fHeaderSize := sz\<rparr>"

definition SetHeaderCRC32 :: "uint32_t \<Rightarrow> RContext \<Rightarrow> RContext" where
  "SetHeaderCRC32 crc32 context = context\<lparr>fHeaderCrc32 := crc32\<rparr>"

definition MapFieldId :: "DescriptorId_t \<Rightarrow> RContext \<Rightarrow> DescriptorId_t \<times> RContext" where
  "MapFieldId memId context =
     (let physId = of_nat (length (fPhys2MemFieldIDs context));
          context = context\<lparr>fMem2PhysFieldIDs := (fMem2PhysFieldIDs context)(memId \<mapsto> physId)\<rparr>;
          context = context\<lparr>fPhys2MemFieldIDs := fPhys2MemFieldIDs context @ [memId]\<rparr>
      in (physId, context))"

definition MapColumnId :: "DescriptorId_t \<Rightarrow> RContext \<Rightarrow> DescriptorId_t \<times> RContext" where
  "MapColumnId memId context =
     (let physId = of_nat (length (fPhys2MemColumnIDs context));
          context = context\<lparr>fMem2PhysColumnIDs := (fMem2PhysColumnIDs context)(memId \<mapsto> physId)\<rparr>;
          context = context\<lparr>fPhys2MemColumnIDs := fPhys2MemColumnIDs context @ [memId]\<rparr>
      in (physId, context))"

text \<open>\<^verbatim>\<open>std::map::at\<close> throws \<^verbatim>\<open>std::out_of_range\<close> for a key that is not in the map.\<close>

definition GetPhysColumnId :: "DescriptorId_t \<Rightarrow> RContext \<Rightarrow> error + DescriptorId_t" where
  "GetPhysColumnId memId context =
     (case fMem2PhysColumnIDs context memId of None \<Rightarrow> Inl Out_of_range | Some physId \<Rightarrow> Inr physId)"

section \<open>The descriptor\<close>

text \<open>
  Modelled from the spec: the descriptor classes (\<^verbatim>\<open>RNTupleDescriptor\<close>, \<^verbatim>\<open>RFieldDescriptor\<close>,
  \<^verbatim>\<open>RColumnDescriptor\<close>) are declared outside the source file. The records hold what the
  serializer asks of them: a field's id, versions, structure, repetition count and strings;
  a column's id, type, sort flag and owning field; and for the descriptor its name and
  description, the id of field-zero, the numbers of fields and columns, and the two
  enumerations (the fields below a parent and the columns of a field, each in descriptor
  order).
\<close>

record RFieldDescriptor =
  fFieldId :: DescriptorId_t
  fFieldVersion :: uint32_t
  fTypeVersion :: uint32_t
  fFieldName :: string
  fFieldDescription :: string
  fTypeName :: string
  fNRepetitions :: uint64_t
  fStructure :: ENTupleStructure

record RColumnDescriptor =
  fColumnId :: DescriptorId_t
  fColumnType :: EColumnType
  fIsSorted :: bool
  fColumnFieldId :: DescriptorId_t

record RNTupleDescriptor =
  GetName :: string
  GetDescription :: string
  GetFieldZeroId :: DescriptorId_t
  GetNFields :: nat
  GetNColumns :: nat
  GetFieldIterable :: "DescriptorId_t \<Rightarrow> RFieldDescriptor list"
  GetColumnIterable :: "DescriptorId_t \<Rightarrow> RColumnDescriptor list"

definition kFlagRepetitiveField :: uint16_t where "kFlagRepetitiveField = 0x01"
definition kFlagSortAscColumn :: uint32_t where "kFlagSortAscColumn = 0x01"
definition kFlagNonNegativeColumn :: uint32_t where "kFlagNonNegativeColumn = 0x04"

section \<open>Header serialization\<close>

text \<open>
  The body of the \<^verbatim>\<open>for\<close> loop of \<^verbatim>\<open>SerializeFieldsV1\<close> for one field \<open>f\<close>: it takes the running
  \<^verbatim>\<open>size\<close> and returns it updated. \<^verbatim>\<open>base\<close> is set from \<^verbatim>\<open>buffer\<close> in every iteration.
\<close>

definition SerializeFieldsV1_body ::
  "RFieldDescriptor \<Rightarrow> DescriptorId_t \<Rightarrow> uint32_t \<Rightarrow> ptr \<Rightarrow> mem \<Rightarrow> error + uint32_t \<times> mem" where
  "SerializeFieldsV1_body f physParentId sz buffer m =
     (let base = (if buffer \<noteq> 0 then buffer else 0);
          pos = base;
          (n, m) = SerializeRecordFramePreamble (where_ptr buffer pos) m;
          pos = pos + unat n;
          (n, m) = SerializeUInt32 (fFieldVersion f) (where_ptr buffer pos) m;
          pos = pos + unat n;
          (n, m) = SerializeUInt32 (fTypeVersion f) (where_ptr buffer pos) m;
          pos = pos + unat n;
          (n, m) = SerializeUInt32 (ucast physParentId) (where_ptr buffer pos) m;
          pos = pos + unat n;
          (n, m) = SerializeFieldStructure (fStructure f) (where_ptr buffer pos) m;
          pos = pos + unat n;
          (pos, m) =
            (if fNRepetitions f > 0 then
               (let (n, m) = SerializeUInt16 kFlagRepetitiveField (where_ptr buffer pos) m;
                    pos = pos + unat n;
                    (n, m) = SerializeUInt64 (fNRepetitions f) (where_ptr buffer pos) m;
                    pos = pos + unat n
                in (pos, m))
             else
               (let (n, m) = SerializeUInt16 0 (where_ptr buffer pos) m;
                    pos = pos + unat n
                in (pos, m)));
          (n, m) = SerializeString (fFieldName f) (where_ptr buffer pos) m;
          pos = pos + unat n;
          (n, m) = SerializeString (fTypeName f) (where_ptr buffer pos) m;
          pos = pos + unat n;
          (n, m) = SerializeString [] (where_ptr buffer pos) m;
          pos = pos + unat n;
          (n, m) = SerializeString (fFieldDescription f) (where_ptr buffer pos) m;
          pos = pos + unat n;
          sz = sz + of_nat (pos - base)
      in case SerializeFramePostscript base sz m of
           Inl e \<Rightarrow> Inl e
         | Inr (n, m) \<Rightarrow> Inr (sz, m))"

fun SerializeFieldsV1_for ::
  "RFieldDescriptor list \<Rightarrow> DescriptorId_t \<Rightarrow> DescriptorId_t list \<Rightarrow> uint32_t \<Rightarrow> ptr \<Rightarrow> mem \<Rightarrow>
   error + DescriptorId_t list \<times> uint32_t \<times> mem" where
  "SerializeFieldsV1_for [] physParentId idQueue sz buffer m = Inr (idQueue, sz, m)"
| "SerializeFieldsV1_for (f # fs) physParentId idQueue sz buffer m =
     (case SerializeFieldsV1_body f physParentId sz buffer m of
        Inl e \<Rightarrow> Inl e
      | Inr (sz, m) \<Rightarrow>
          SerializeFieldsV1_for fs physParentId (idQueue @ [fFieldId f]) sz buffer m)"

text \<open>
  The \<^verbatim>\<open>while (!idQueue.empty())\<close> loop. Nothing in the code bounds it (a descriptor whose
  enumeration has a cycle keeps the queue filled), so the model counts the iterations it
  may still make: \<open>None\<close> is a run that has not finished within \<open>fuel\<close> iterations.
\<close>

fun SerializeFieldsV1_while ::
  "nat \<Rightarrow> RNTupleDescriptor \<Rightarrow> DescriptorId_t list \<Rightarrow> RContext \<Rightarrow> uint32_t \<Rightarrow> ptr \<Rightarrow> mem \<Rightarrow>
   (error + RContext \<times> uint32_t \<times> mem) option" where
  "SerializeFieldsV1_while fuel desc [] context sz buffer m = Some (Inr (context, sz, m))"
| "SerializeFieldsV1_while 0 desc (parentId # idQueue) context sz buffer m = None"
| "SerializeFieldsV1_while (Suc fuel) desc (parentId # idQueue) context sz buffer m =
     (let (physParentId, context) = MapFieldId parentId context
      in case SerializeFieldsV1_for (GetFieldIterable desc parentId) physParentId idQueue sz buffer m of
           Inl e \<Rightarrow> Some (Inl e)
         | Inr (idQueue, sz, m) \<Rightarrow> SerializeFieldsV1_while fuel desc idQueue context sz buffer m)"

definition SerializeFieldsV1 ::
  "nat \<Rightarrow> RNTupleDescriptor \<Rightarrow> RContext \<Rightarrow> ptr \<Rightarrow> mem \<Rightarrow> (error + RContext \<times> uint32_t \<times> mem) option" where
  "SerializeFieldsV1 fuel desc context buffer m =
     SerializeFieldsV1_while fuel desc [GetFieldZeroId desc] context 0 buffer m"

text \<open>
  \<^verbatim>\<open>SerializeColumnsV1\<close>, in the same way. \<^verbatim>\<open>RColumnElementBase::GetBitsOnStorage\<close> is outside
  the source file and is the parameter \<open>bits\<close>.
\<close>

definition SerializeColumnsV1_body ::
  "(EColumnType \<Rightarrow> nat) \<Rightarrow> RColumnDescriptor \<Rightarrow> RContext \<Rightarrow> uint32_t \<Rightarrow> ptr \<Rightarrow> mem \<Rightarrow>
   error + RContext \<times> uint32_t \<times> mem" where
  "SerializeColumnsV1_body bits c context sz buffer m =
     (let base = (if buffer \<noteq> 0 then buffer else 0);
          pos = base;
          (n, m) = SerializeRecordFramePreamble (where_ptr buffer pos) m;
          pos = pos + unat n;
          type = fColumnType c;
          (n, m) = SerializeColumnType type (where_ptr buffer pos) m;
          pos = pos + unat n;
          (n, m) = SerializeUInt16 (of_nat (bits type)) (where_ptr buffer pos) m;
          pos = pos + unat n
      in case GetPhysColumnId (fColumnFieldId c) context of
           Inl e \<Rightarrow> Inl e
         | Inr physId \<Rightarrow>
             let (n, m) = SerializeUInt32 (ucast physId) (where_ptr buffer pos) m;
                 pos = pos + unat n;
                 flags = (0 :: uint32_t);
                 flags = (if fIsSorted c then flags OR kFlagSortAscColumn else flags);
                 flags = (if type = kIndex then flags OR kFlagNonNegativeColumn else flags);
                 (n, m) = SerializeUInt32 flags (where_ptr buffer pos) m;
                 pos = pos + unat n;
                 sz = sz + of_nat (pos - base)
             in case SerializeFramePostscript base sz m of
                  Inl e \<Rightarrow> Inl e
                | Inr (n, m) \<Rightarrow>
                    let (physColumnId, context) = MapColumnId (fColumnId c) context
                    in Inr (context, sz, m))"

fun SerializeColumnsV1_for ::
  "(EColumnType \<Rightarrow> nat) \<Rightarrow> RColumnDescriptor list \<Rightarrow> RContext \<Rightarrow> uint32_t \<Rightarrow> ptr \<Rightarrow> mem \<Rightarrow>
   error + RContext \<times> uint32_t \<times> mem" where
  "SerializeColumnsV1_for bits [] context sz buffer m = Inr (context, sz, m)"
| "SerializeColumnsV1_for bits (c # cs) context sz buffer m =
     (case SerializeColumnsV1_body bits c context sz buffer m of
        Inl e \<Rightarrow> Inl e
      | Inr (context, sz, m) \<Rightarrow> SerializeColumnsV1_for bits cs context sz buffer m)"

fun SerializeColumnsV1_while ::
  "nat \<Rightarrow> (EColumnType \<Rightarrow> nat) \<Rightarrow> RNTupleDescriptor \<Rightarrow> DescriptorId_t list \<Rightarrow> RContext \<Rightarrow> uint32_t \<Rightarrow>
   ptr \<Rightarrow> mem \<Rightarrow> (error + RContext \<times> uint32_t \<times> mem) option" where
  "SerializeColumnsV1_while fuel bits desc [] context sz buffer m = Some (Inr (context, sz, m))"
| "SerializeColumnsV1_while 0 bits desc (parentId # idQueue) context sz buffer m = None"
| "SerializeColumnsV1_while (Suc fuel) bits desc (parentId # idQueue) context sz buffer m =
     (case SerializeColumnsV1_for bits (GetColumnIterable desc parentId) context sz buffer m of
        Inl e \<Rightarrow> Some (Inl e)
      | Inr (context, sz, m) \<Rightarrow>
          SerializeColumnsV1_while fuel bits desc
            (idQueue @ map fFieldId (GetFieldIterable desc parentId)) context sz buffer m)"

definition SerializeColumnsV1 ::
  "nat \<Rightarrow> (EColumnType \<Rightarrow> nat) \<Rightarrow> RNTupleDescriptor \<Rightarrow> RContext \<Rightarrow> ptr \<Rightarrow> mem \<Rightarrow>
   (error + RContext \<times> uint32_t \<times> mem) option" where
  "SerializeColumnsV1 fuel bits desc context buffer m =
     SerializeColumnsV1_while fuel bits desc [GetFieldZeroId desc] context 0 buffer m"

text \<open>
  Sequencing for \<^verbatim>\<open>SerializeHeaderV1\<close>: an exception of a callee leaves the function with
  that exception (\<open>Some (Inl e)\<close>), and a callee that does not return leaves it without
  a result (\<open>None\<close>).
\<close>

definition or_throw ::
  "error + 'a \<Rightarrow> ('a \<Rightarrow> (error + 'b) option) \<Rightarrow> (error + 'b) option" where
  "or_throw r k = (case r of Inl e \<Rightarrow> Some (Inl e) | Inr x \<Rightarrow> k x)"

definition or_diverge ::
  "(error + 'a) option \<Rightarrow> ('a \<Rightarrow> (error + 'b) option) \<Rightarrow> (error + 'b) option" where
  "or_diverge r k = (case r of None \<Rightarrow> None | Some r' \<Rightarrow> or_throw r' k)"

text \<open>
  \<^verbatim>\<open>SerializeHeaderV1\<close>. The value returned by \<^verbatim>\<open>SerializeFieldsV1\<close> is not added to \<^verbatim>\<open>pos\<close>;
  the one returned by \<^verbatim>\<open>SerializeColumnsV1\<close> is. Each list frame is closed with
  \<^verbatim>\<open>SerializeFramePostscript(frame, pos - frame)\<close>, where \<^verbatim>\<open>frame\<close> is the position at which the
  frame began: in a size-only run that position is an offset from the null pointer, not
  null, so the postscript reads and writes the store there (the source dereferences that
  pointer). \<^verbatim>\<open>ExtractEnvelopeCRC32\<close> is called with the size that excludes the checksum.
\<close>

definition SerializeHeaderV1 ::
  "nat \<Rightarrow> crc32_fn \<Rightarrow> (EColumnType \<Rightarrow> nat) \<Rightarrow> ptr \<Rightarrow> RNTupleDescriptor \<Rightarrow> mem \<Rightarrow>
   (error + RContext \<times> mem) option" where
  "SerializeHeaderV1 fuel crc bits buffer desc m =
     (let context = RContext_default;
          base = (if buffer \<noteq> 0 then buffer else 0);
          pos = base;
          (n, m) = SerializeEnvelopePreamble (where_ptr buffer pos) m;
          pos = pos + unat n
      in
      or_throw (SerializeFeatureFlags [] (where_ptr buffer pos) m) (\<lambda>(n, m).
      let pos = pos + unat n;
          (n, m) = SerializeString (GetName desc) (where_ptr buffer pos) m;
          pos = pos + unat n;
          (n, m) = SerializeString (GetDescription desc) (where_ptr buffer pos) m;
          pos = pos + unat n;
          frame = pos
      in
      or_throw (SerializeListFramePreamble (of_nat (GetNFields desc)) (where_ptr buffer pos) m) (\<lambda>(n, m).
      let pos = pos + unat n
      in
      or_diverge (SerializeFieldsV1 fuel desc context (where_ptr buffer pos) m) (\<lambda>(context, n, m).
      or_throw (SerializeFramePostscript frame (of_nat (pos - frame)) m) (\<lambda>(n, m).
      let pos = pos + unat n;
          frame = pos
      in
      or_throw (SerializeListFramePreamble (of_nat (GetNColumns desc)) (where_ptr buffer pos) m) (\<lambda>(n, m).
      let pos = pos + unat n
      in
      or_diverge (SerializeColumnsV1 fuel bits desc context (where_ptr buffer pos) m) (\<lambda>(context, n, m).
      let pos = pos + unat n
      in
      or_throw (SerializeFramePostscript frame (of_nat (pos - frame)) m) (\<lambda>(n, m).
      let pos = pos + unat n;
          frame = pos
      in
      or_throw (SerializeListFramePreamble 0 (where_ptr buffer pos) m) (\<lambda>(n, m).
      let pos = pos + unat n
      in
      or_throw (SerializeFramePostscript frame (of_nat (pos - frame)) m) (\<lambda>(n, m).
      let pos = pos + unat n;
          sz = (of_nat (pos - base) :: uint32_t);
          (n, m) = SerializeEnvelopePostscript crc base sz (where_ptr buffer pos) m;
          pos = pos + unat n;
          context = SetHeaderSize sz context
      in
      if buffer \<noteq> 0 then
        or_throw (ExtractEnvelopeCRC32 m base sz) (\<lambda>crc32.
        Some (Inr (SetHeaderCRC32 crc32 context, m)))
      else Some (Inr (context, m))))))))))))"

section \<open>Field trees and breadth-first order\<close>

text \<open>
  Modelled from the spec: the fields of a descriptor form a tree below field-zero, and the
  descriptor enumerates the direct children of a parent in a fixed order. A descriptor
  \<open>describes\<close> a field tree when field-zero is the root, the number of fields is the number
  of nodes, and the enumeration below every node yields its children in order.
  \<open>breadth_first\<close> is the order of the spec: the root first, then the children of each
  dequeued parent are enqueued in descriptor order.
\<close>

datatype field_tree = Field_node RFieldDescriptor "field_tree list"

fun root_field :: "field_tree \<Rightarrow> RFieldDescriptor" where
  "root_field (Field_node f ts) = f"

fun sub_fields :: "field_tree \<Rightarrow> field_tree list" where
  "sub_fields (Field_node f ts) = ts"

fun all_nodes :: "field_tree \<Rightarrow> field_tree list" where
  "all_nodes (Field_node f ts) = Field_node f ts # concat (map all_nodes ts)"

function breadth_first :: "field_tree list \<Rightarrow> RFieldDescriptor list" where
  "breadth_first [] = []"
| "breadth_first (Field_node f ts # queue) = f # breadth_first (queue @ ts)"
  by pat_completeness auto
termination
  by (relation "measure (\<lambda>queue. sum_list (map size queue))")
     (auto simp: size_list_conv_sum_list)

definition describes :: "RNTupleDescriptor \<Rightarrow> field_tree \<Rightarrow> bool" where
  "describes desc t \<longleftrightarrow>
     GetFieldZeroId desc = fFieldId (root_field t) \<and>
     GetNFields desc = length (all_nodes t) \<and>
     (\<forall>n \<in> set (all_nodes t).
        GetFieldIterable desc (fFieldId (root_field n)) = map root_field (sub_fields n))"

text \<open>
  The bytes of one field record as the spec lays it out (frame head, two versions, parent
  id, structure, flags, the repetition count if the field is repetitive, and four
  length-prefixed strings of which the type alias is empty), and the bytes of all records
  below a node.
\<close>

definition record_bytes :: "RFieldDescriptor \<Rightarrow> nat" where
  "record_bytes f =
     4 + 4 + 4 + 4 + 2 + 2 + (if fNRepetitions f > 0 then 8 else 0) +
     (4 + length (fFieldName f)) + (4 + length (fTypeName f)) + 4 +
     (4 + length (fFieldDescription f))"

fun bytes_below :: "field_tree \<Rightarrow> nat" where
  "bytes_below (Field_node f ts) =
     sum_list (map (\<lambda>t. record_bytes (root_field t) + bytes_below t) ts)"

section \<open>Concrete stores and an example descriptor\<close>

definition zero_mem :: mem where
  "zero_mem = (\<lambda>a. 0)"

text \<open>
  A small descriptor for closed examples: below field-zero (id 0) the fields \<open>hits\<close> (id 2)
  and \<open>pt\<close> (id 1), in this order, and below \<open>hits\<close> its item field \<open>_0\<close> (id 3); no
  columns.
\<close>

definition field_zero :: RFieldDescriptor where
  "field_zero = \<lparr>fFieldId = 0, fFieldVersion = 0, fTypeVersion = 0, fFieldName = [],
     fFieldDescription = [], fTypeName = [], fNRepetitions = 0, fStructure = kRecord\<rparr>"

definition field_pt :: RFieldDescriptor where
  "field_pt = \<lparr>fFieldId = 1, fFieldVersion = 0, fTypeVersion = 0, fFieldName = ''pt'',
     fFieldDescription = [], fTypeName = ''float'', fNRepetitions = 0, fStructure = kLeaf\<rparr>"

definition field_hits :: RFieldDescriptor where
  "field_hits = \<lparr>fFieldId = 2, fFieldVersion = 0, fTypeVersion = 0, fFieldName = ''hits'',
     fFieldDescription = [], fTypeName = ''std::vector<float>'', fNRepetitions = 0,
     fStructure = kCollection\<rparr>"

definition field_item :: RFieldDescriptor where
  "field_item = \<lparr>fFieldId = 3, fFieldVersion = 0, fTypeVersion = 0, fFieldName = ''_0'',
     fFieldDescription = [], fTypeName = ''float'', fNRepetitions = 0, fStructure = kLeaf\<rparr>"

definition example_tree :: field_tree where
  "example_tree =
     Field_node field_zero
       [Field_node field_hits [Field_node field_item []], Field_node field_pt []]"

definition example_desc :: RNTupleDescriptor where
  "example_desc =
     \<lparr>GetName = ''events'', GetDescription = [], GetFieldZeroId = 0,
      GetNFields = 4, GetNColumns = 0,
      GetFieldIterable =
        (\<lambda>parentId. if parentId = 0 then [field_hits, field_pt]
                    else if parentId = 2 then [field_item] else []),
      GetColumnIterable = (\<lambda>parentId. [])\<rparr>"

section \<open>Bytes of a word\<close>

lemma byte_of_masked:
  "(ucast (drop_bit k (v AND push_bit k (mask 8))) :: byte) = ucast (drop_bit k (v :: 'a::len word))"
  by (rule bit_word_eqI) (auto simp: bit_simps dest: bit_imp_le_length)

lemma ucast_byte_take: "(ucast (ucast (w :: 'a::len word) :: byte) :: 'a word) = take_bit 8 w"
  by (rule bit_word_eqI) (auto simp: bit_simps)

lemma take_bit_add_byte:
  "take_bit k (v :: 'a::len word) + push_bit k (take_bit 8 (drop_bit k v)) = take_bit (k + 8) v"
proof -
  have "take_bit k v + push_bit k (take_bit 8 (drop_bit k v)) =
        take_bit k v OR push_bit k (take_bit 8 (drop_bit k v))"
    by (rule disjunctive_add_eq_or, rule bit_word_eqI) (auto simp: bit_simps)
  also have "\<dots> = take_bit (k + 8) v"
    by (rule bit_word_eqI) (auto simp: bit_simps)
  finally show ?thesis .
qed

lemma bytes16:
  "(ucast ((v::16 word) AND 0x00FF) :: byte) = ucast v"
  "(ucast (drop_bit 8 (v AND 0xFF00)) :: byte) = ucast (drop_bit 8 v)"
  using byte_of_masked[of 0 v] byte_of_masked[of 8 v]
  by (simp_all add: mask_eq_exp_minus_1)

lemma bytes32:
  "(ucast ((v::32 word) AND 0x000000FF) :: byte) = ucast v"
  "(ucast (drop_bit 8 (v AND 0x0000FF00)) :: byte) = ucast (drop_bit 8 v)"
  "(ucast (drop_bit 16 (v AND 0x00FF0000)) :: byte) = ucast (drop_bit 16 v)"
  "(ucast (drop_bit 24 (v AND 0xFF000000)) :: byte) = ucast (drop_bit 24 v)"
  using byte_of_masked[of 0 v] byte_of_masked[of 8 v] byte_of_masked[of 16 v] byte_of_masked[of 24 v]
  by (simp_all add: mask_eq_exp_minus_1)

lemma bytes64:
  "(ucast ((v::64 word) AND 0x00000000000000FF) :: byte) = ucast v"
  "(ucast (drop_bit 8 (v AND 0x000000000000FF00)) :: byte) = ucast (drop_bit 8 v)"
  "(ucast (drop_bit 16 (v AND 0x0000000000FF0000)) :: byte) = ucast (drop_bit 16 v)"
  "(ucast (drop_bit 24 (v AND 0x00000000FF000000)) :: byte) = ucast (drop_bit 24 v)"
  "(ucast (drop_bit 32 (v AND 0x000000FF00000000)) :: byte) = ucast (drop_bit 32 v)"
  "(ucast (drop_bit 40 (v AND 0x0000FF0000000000)) :: byte) = ucast (drop_bit 40 v)"
  "(ucast (drop_bit 48 (v AND 0x00FF000000000000)) :: byte) = ucast (drop_bit 48 v)"
  "(ucast (drop_bit 56 (v AND 0xFF00000000000000)) :: byte) = ucast (drop_bit 56 v)"
  using byte_of_masked[of 0 v] byte_of_masked[of 8 v] byte_of_masked[of 16 v] byte_of_masked[of 24 v]
    byte_of_masked[of 32 v] byte_of_masked[of 40 v] byte_of_masked[of 48 v] byte_of_masked[of 56 v]
  by (simp_all add: mask_eq_exp_minus_1)

lemma join16: "ucast (ucast v :: byte) + push_bit 8 (ucast (ucast (drop_bit 8 v) :: byte)) = (v :: 16 word)"
  using take_bit_add_byte[of 8 v] by (simp add: ucast_byte_take take_bit_word_eq_self)

lemma join32: "ucast (ucast v :: byte) + push_bit 8 (ucast (ucast (drop_bit 8 v) :: byte))
   + push_bit 16 (ucast (ucast (drop_bit 16 v) :: byte)) + push_bit 24 (ucast (ucast (drop_bit 24 v) :: byte)) = (v :: 32 word)"
  using take_bit_add_byte[of 8 v] take_bit_add_byte[of 16 v] take_bit_add_byte[of 24 v] by (simp add: ucast_byte_take take_bit_word_eq_self)

lemma join64: "ucast (ucast v :: byte) + push_bit 8 (ucast (ucast (drop_bit 8 v) :: byte))
   + push_bit 16 (ucast (ucast (drop_bit 16 v) :: byte)) + push_bit 24 (ucast (ucast (drop_bit 24 v) :: byte)) 
   + push_bit 32 (ucast (ucast (drop_bit 32 v) :: byte)) + push_bit 40 (ucast (ucast (drop_bit 40 v) :: byte)) 
   + push_bit 48 (ucast (ucast (drop_bit 48 v) :: byte)) + push_bit 56 (ucast (ucast (drop_bit 56 v) :: byte)) 
= (v :: 64 word)"
  using take_bit_add_byte[of 8 v] take_bit_add_byte[of 16 v] take_bit_add_byte[of 24 v] 
 take_bit_add_byte[of 32 v] take_bit_add_byte[of 40 v] take_bit_add_byte[of 48 v] take_bit_add_byte[of 56 v] 
by (simp add: ucast_byte_take take_bit_word_eq_self)

lemma DeserializeInt16_SerializeInt16:
  "buffer \<noteq> 0 \<Longrightarrow> DeserializeInt16 (snd (SerializeInt16 v buffer m)) buffer = (2, v)"
  by (simp add: DeserializeInt16_def SerializeInt16_def bytes16 join16)

lemma DeserializeInt32_SerializeInt32:
  "buffer \<noteq> 0 \<Longrightarrow> DeserializeInt32 (snd (SerializeInt32 v buffer m)) buffer = (4, v)"
  by (simp add: DeserializeInt32_def SerializeInt32_def bytes32 join32)

lemma DeserializeInt64_SerializeInt64:
  "buffer \<noteq> 0 \<Longrightarrow> DeserializeInt64 (snd (SerializeInt64 v buffer m)) buffer = (8, v)"
  by (simp add: DeserializeInt64_def SerializeInt64_def bytes64 join64)

lemma fst_SerializeInt [simp]:
  "fst (SerializeInt16 a p m) = 2" "fst (SerializeInt32 b p m) = 4" "fst (SerializeInt64 c p m) = 8"
  by (simp_all add: SerializeInt16_def SerializeInt32_def SerializeInt64_def)

lemma SerializeInt_null [simp]:
  "SerializeInt16 a 0 m = (2, m)" "SerializeInt32 b 0 m = (4, m)" "SerializeInt64 c 0 m = (8, m)"
  by (simp_all add: SerializeInt16_def SerializeInt32_def SerializeInt64_def)

text \<open>
  C9. For each width 16, 32 and 64, signed or unsigned, deserializing what the serialize
  function wrote at a real (non-null) buffer returns the value, and each serialize function
  returns its width 2, 4 or 8 at any buffer \<open>p\<close>, null or real; at the null buffer the store
  is left as it was.
\<close>

theorem integers_round_trip:
  fixes a :: "16 word" and b :: "32 word" and c :: "64 word"
  assumes "buffer \<noteq> 0"
  shows "snd (DeserializeInt16 (snd (SerializeInt16 a buffer m)) buffer) = a \<and>
         snd (DeserializeUInt16 (snd (SerializeUInt16 a buffer m)) buffer) = a \<and>
         snd (DeserializeInt32 (snd (SerializeInt32 b buffer m)) buffer) = b \<and>
         snd (DeserializeUInt32 (snd (SerializeUInt32 b buffer m)) buffer) = b \<and>
         snd (DeserializeInt64 (snd (SerializeInt64 c buffer m)) buffer) = c \<and>
         snd (DeserializeUInt64 (snd (SerializeUInt64 c buffer m)) buffer) = c \<and>
         fst (SerializeInt16 a p m) = 2 \<and> fst (SerializeUInt16 a p m) = 2 \<and>
         fst (SerializeInt32 b p m) = 4 \<and> fst (SerializeUInt32 b p m) = 4 \<and>
         fst (SerializeInt64 c p m) = 8 \<and> fst (SerializeUInt64 c p m) = 8 \<and>
         snd (SerializeInt16 a 0 m) = m \<and> snd (SerializeUInt16 a 0 m) = m \<and>
         snd (SerializeInt32 b 0 m) = m \<and> snd (SerializeUInt32 b 0 m) = m \<and>
         snd (SerializeInt64 c 0 m) = m \<and> snd (SerializeUInt64 c 0 m) = m"
  using assms
  by (simp add: SerializeUInt16_def DeserializeUInt16_def SerializeUInt32_def DeserializeUInt32_def
      SerializeUInt64_def DeserializeUInt64_def DeserializeInt16_SerializeInt16
      DeserializeInt32_SerializeInt32 DeserializeInt64_SerializeInt64)

text \<open>The round trip at address 16 of an empty store, with the sign bit set in each value.\<close>

theorem integers_round_trip_witness:
  "(16 :: nat) \<noteq> 0 \<and>
   snd (DeserializeInt16 (snd (SerializeInt16 0xBEEF 16 zero_mem)) 16) = 0xBEEF \<and>
   snd (DeserializeUInt32 (snd (SerializeUInt32 0x8A0B0C0D 16 zero_mem)) 16) = 0x8A0B0C0D \<and>
   snd (DeserializeInt64 (snd (SerializeInt64 (- 2) 16 zero_mem)) 16) = - 2 \<and>
   fst (SerializeUInt64 0x0102030405060708 0 zero_mem) = 8"
  using integers_round_trip [of 16 "0xBEEF" zero_mem "0x8A0B0C0D" "- 2" 0]
    integers_round_trip [of 16 "0xBEEF" zero_mem "0x8A0B0C0D" "0x0102030405060708" 0]
  by simp

section \<open>Signed comparisons\<close>

lemma not_sless_zero_iff: "\<not> f <s 0 \<longleftrightarrow> 0 \<le>s (f :: 'a::len word)"
  by (auto simp: word_sless_alt word_sle_eq)

lemma sint_minus_eq:
  assumes "- (2 ^ (LENGTH('a) - 1)) < sint (f :: 'a::len word)"
  shows "sint (- f) = - sint f"
proof -
  have upper: "sint f < 2 ^ (LENGTH('a) - 1)"
    by (rule sint_lt)
  have "sint (- f) = signed_take_bit (LENGTH('a) - 1) (- sint f)"
    by (simp add: sint_word_ariths)
  also have "\<dots> = - sint f"
    by (rule signed_take_bit_int_eq_self) (use assms upper in auto)
  finally show ?thesis .
qed

lemma minus_positive_sless_zero:
  assumes "0 \<le>s f" and "f \<noteq> 0"
  shows "- f <s (0 :: 'a::len word)"
proof -
  from assms(1) have "0 \<le> sint f"
    by (simp add: word_sle_eq)
  moreover from assms(2) have "sint f \<noteq> 0"
    by (metis sint_0 signed_word_eqI)
  ultimately have pos: "0 < sint f"
    by simp
  have "(0::int) < 2 ^ (LENGTH('a) - 1)"
    by simp
  with pos have "- (2 ^ (LENGTH('a) - 1)) < sint f"
    by linarith
  then have "sint (- f) = - sint f"
    by (rule sint_minus_eq)
  with pos show ?thesis
    by (simp add: word_sless_alt)
qed

lemma sint_eq_unat_of_small:
  assumes "unat (n :: 'a::len word) < 2 ^ (LENGTH('a) - 1)"
  shows "sint n = int (unat n)"
proof -
  have "int (unat n) < int (2 ^ (LENGTH('a) - 1))"
    using assms by (simp only: of_nat_less_iff)
  then have "uint n < 2 ^ (LENGTH('a) - 1)"
    by simp
  moreover have "0 \<le> uint n"
    by simp
  moreover have "- (2 ^ (LENGTH('a) - 1)) \<le> (0 :: int)"
    by simp
  ultimately have "signed_take_bit (LENGTH('a) - 1) (uint n) = uint n"
    by (intro signed_take_bit_int_eq_self) linarith+
  then have "sint n = uint n"
    by (simp add: sint_uint)
  also have "uint n = int (unat n)"
    by (rule uint_nat)
  finally show ?thesis .
qed

lemma ucast_minus_down: "(ucast (- f :: 64 word) :: 32 word) = - ucast f"
proof -
  have down: "is_down (ucast :: 64 word \<Rightarrow> 32 word)"
    by (simp add: is_down)
  have "(ucast (word_of_int (- uint f) :: 64 word) :: 32 word) = word_of_int (- uint f)"
    using down by (rule ucast_down_wi)
  moreover have "(ucast (word_of_int (uint f) :: 64 word) :: 32 word) = word_of_int (uint f)"
    using down by (rule ucast_down_wi)
  ultimately show ?thesis
    by simp
qed

lemma unat_ucast_small:
  assumes "unat (f :: 64 word) < 2 ^ 31"
  shows "unat (ucast f :: 32 word) = unat f"
proof -
  have "unat (ucast f :: 32 word) = take_bit LENGTH(32) (unat f)"
    by (rule unsigned_ucast_eq)
  also have "\<dots> = unat f"
    using assms by (intro take_bit_nat_eq_self) simp
  finally show ?thesis .
qed

lemma scast_ucast_small:
  assumes "unat (f :: 64 word) < 2 ^ 31"
  shows "(scast (ucast f :: 32 word) :: 64 word) = f"
proof -
  have u: "unat (ucast f :: 32 word) = unat f"
    using assms by (rule unat_ucast_small)
  have "sint (ucast f :: 32 word) = int (unat (ucast f :: 32 word))"
    using sint_eq_unat_of_small [of "ucast f :: 32 word"] assms u by simp
  then have "sint (ucast f :: 32 word) = int (unat f)"
    by (simp only: u)
  then have "(scast (ucast f :: 32 word) :: 64 word) = word_of_int (int (unat f))"
    by (simp only: scast_eq)
  also have "\<dots> = f"
    by simp
  finally show ?thesis .
qed

section \<open>Frames on the read path\<close>

lemma DeserializeFrame_nitems_below_2_29:
  assumes "DeserializeFrame m buffer bufSize = Inr (n, frameSize, nitems)"
  shows "nitems < 2 ^ 29"
proof -
  have "x AND (push_bit 28 2 - 1) < 2 ^ 29" for x :: "32 word"
  proof -
    have "x AND 0x1FFFFFFF \<le> 0x1FFFFFFF"
      by (rule word_and_le1)
    then show ?thesis
      by (simp add: word_le_nat_alt word_less_nat_alt)
  qed
  with assms show ?thesis
    by (auto simp: DeserializeFrame_def Let_def split_def split: if_splits)
qed

text \<open>
  C3. The claim is that a list frame decoded by \<^verbatim>\<open>DeserializeFrame\<close> has \<open>nitems < 2^28\<close>.
  The read path masks with \<^verbatim>\<open>(2 << 28) - 1\<close>, which keeps 29 bits, while the write path
  refuses \<^verbatim>\<open>nitems >= (1 << 28)\<close>. On the 8 bytes \<open>F8 FF FF FF 00 00 00 10\<close> (head \<open>-8\<close>,
  item count \<open>2^28\<close>) the call succeeds and returns \<open>nitems = 2^28\<close>.
\<close>

theorem DeserializeFrame_nitems_2_28:
  "DeserializeFrame (memcpy 16 [0xF8, 0xFF, 0xFF, 0xFF, 0x00, 0x00, 0x00, 0x10] zero_mem) 16 8
     = Inr (8, 8, 2 ^ 28)"
  by (simp add: DeserializeFrame_def DeserializeInt32_def DeserializeUInt32_def memcpy_def
      zero_mem_def Let_def word_sle_eq)

section \<open>Feature flags\<close>

lemma SerializeFeatureFlags_for_negative:
  "\<exists>f \<in> set flags. f <s 0 \<Longrightarrow>
   SerializeFeatureFlags_for flags bytes m = Inl Feature_flag_out_of_bounds"
  by (induction flags arbitrary: bytes m) (auto simp: Let_def split: prod.splits)

text \<open>
  C5, as stated: a flag list with a negative value fails for every invocation, the
  size-only one with a null buffer included. The check stands inside \<^verbatim>\<open>if (buffer)\<close>: with
  a null buffer the list \<open>[-1]\<close> is accepted and its size 8 returned.
\<close>

theorem SerializeFeatureFlags_null_buffer_counterexample:
  "(- 1 :: int64_t) <s 0 \<and> SerializeFeatureFlags [- 1] 0 zero_mem = Inr (8, zero_mem)"
  by (simp add: SerializeFeatureFlags_def word_sless_alt)

text \<open>
  C5, amended: for every flag list with at least one negative value,
  \<^verbatim>\<open>SerializeFeatureFlags\<close> fails with feature-flag-out-of-bounds at every real (non-null)
  buffer; the size-only invocation with a null buffer does not look at the flags and
  returns 8 times their number.
\<close>

theorem SerializeFeatureFlags_negative:
  assumes "\<exists>f \<in> set flags. f <s 0"
  shows "(buffer \<noteq> 0 \<longrightarrow>
            SerializeFeatureFlags flags buffer m = Inl Feature_flag_out_of_bounds) \<and>
         SerializeFeatureFlags flags 0 m = Inr (of_nat (length flags * 8), m)"
  using assms SerializeFeatureFlags_for_negative [OF assms]
  by (auto simp: SerializeFeatureFlags_def)

theorem SerializeFeatureFlags_negative_witness:
  "(\<exists>f \<in> set [3, - 7 :: int64_t]. f <s 0) \<and>
   SerializeFeatureFlags [3, - 7] 16 zero_mem = Inl Feature_flag_out_of_bounds \<and>
   SerializeFeatureFlags [3, - 7] 0 zero_mem = Inr (16, zero_mem)"
  using SerializeFeatureFlags_negative [of "[3, - 7]" 16 zero_mem]
  by (simp add: word_sless_alt)

lemma SerializeInt64_outside:
  "a < p \<or> p + 8 \<le> a \<Longrightarrow> snd (SerializeInt64 v p m) a = m a"
  by (auto simp: SerializeInt64_def)

lemma DeserializeInt64_cong:
  "(\<And>a. p \<le> a \<Longrightarrow> a < p + 8 \<Longrightarrow> m' a = m a) \<Longrightarrow> DeserializeInt64 m' p = DeserializeInt64 m p"
  by (simp add: DeserializeInt64_def)

lemma SerializeFeatureFlags_for_below:
  "SerializeFeatureFlags_for fs p m = Inr m' \<Longrightarrow> a < p \<Longrightarrow> m' a = m a"
proof (induction fs arbitrary: p m)
  case Nil
  then show ?case by simp
next
  case (Cons f fs)
  show ?case
  proof (cases "fs = []")
    case True
    with Cons.prems show ?thesis
      by (auto simp: Let_def SerializeInt64_def split: if_splits prod.splits)
  next
    case False
    from Cons.prems False have nneg: "\<not> f <s 0"
      by (auto split: if_splits)
    obtain m1 where s: "SerializeInt64 (- f) p m = (8, m1)"
      by (cases "SerializeInt64 (- f) p m") (auto simp: SerializeInt64_def split: if_splits)
    from Cons.prems False nneg s have r: "SerializeFeatureFlags_for fs (p + 8) m1 = Inr m'"
      by (simp add: Let_def)
    from Cons.IH [OF r] Cons.prems(2) have "m' a = m1 a"
      by simp
    moreover have "m1 a = m a"
      using SerializeInt64_outside [of a p "- f" m] s Cons.prems(2) by simp
    ultimately show ?thesis
      by simp
  qed
qed

lemma abs_int_of_flag:
  assumes "unat (f :: int64_t) < 2 ^ 31"
  shows "(scast (abs_int (ucast f)) :: int64_t) = f"
proof -
  have u: "unat (ucast f :: int32_t) = unat f"
    using assms by (rule unat_ucast_small)
  have "sint (ucast f :: int32_t) = int (unat (ucast f :: int32_t))"
    using sint_eq_unat_of_small [of "ucast f :: int32_t"] assms u by simp
  then have "\<not> (ucast f :: int32_t) <s 0"
    by (simp add: word_sless_alt)
  then have "abs_int (ucast f) = ucast f"
    by (simp add: abs_int_def)
  with scast_ucast_small [OF assms] show ?thesis
    by simp
qed

lemma abs_int_of_negated_flag:
  assumes "unat (f :: int64_t) < 2 ^ 31" and "f \<noteq> 0"
  shows "(scast (abs_int (ucast (- f))) :: int64_t) = f"
proof -
  let ?x = "ucast f :: int32_t"
  have u: "unat ?x = unat f"
    using assms(1) by (rule unat_ucast_small)
  have s: "sint ?x = int (unat ?x)"
    using sint_eq_unat_of_small [of ?x] assms(1) u by simp
  then have nonneg: "0 \<le>s ?x"
    by (simp add: word_sle_eq)
  have "unat f \<noteq> 0"
    using assms(2) by (simp add: unat_eq_0)
  then have "unat ?x \<noteq> 0"
    by (simp only: u not_False_eq_True)
  then have "?x \<noteq> 0"
    by (simp add: unat_eq_0)
  with nonneg have "- ?x <s 0"
    by (rule minus_positive_sless_zero)
  then have "abs_int (- ?x) = ?x"
    by (simp add: abs_int_def)
  then have "abs_int (ucast (- f)) = ?x"
    by (simp only: ucast_minus_down)
  with scast_ucast_small [OF assms(1)] show ?thesis
    by simp
qed

lemma flag_nonneg:
  assumes "unat (f :: int64_t) < 2 ^ 31"
  shows "0 \<le>s f"
proof -
  have "unat f < 2 ^ (LENGTH(64) - 1)"
    using assms by simp
  then have "sint f = int (unat f)"
    by (rule sint_eq_unat_of_small)
  then show ?thesis
    by (simp add: word_sle_eq)
qed

lemma feature_flags_loops:
  assumes "fs \<noteq> []" and "\<forall>f \<in> set fs. unat f < 2 ^ 31" and "\<forall>f \<in> set (butlast fs). f \<noteq> 0"
    and "p \<noteq> 0" and "length fs * 8 \<le> unat sz"
  shows "\<exists>m'. SerializeFeatureFlags_for fs p m = Inr m' \<and>
              DeserializeFeatureFlags_do m' p sz acc = Inr (acc @ fs)"
  using assms
proof (induction fs arbitrary: p m sz acc)
  case Nil
  then show ?case by simp
next
  case (Cons f fs)
  have small: "unat f < 2 ^ 31"
    using Cons.prems(2) by simp
  have nonneg: "0 \<le>s f"
    using small by (rule flag_nonneg)
  then have nneg: "\<not> f <s 0"
    by (simp add: not_sless_zero_iff)
  have sz8: "\<not> sz < 8"
    using Cons.prems(5) by (simp add: word_less_nat_alt)
  show ?case
  proof (cases "fs = []")
    case True
    have "DeserializeInt64 (snd (SerializeInt64 f p m)) p = (8, f)"
      using Cons.prems(4) by (rule DeserializeInt64_SerializeInt64)
    with True nneg sz8 abs_int_of_flag [OF small] show ?thesis
      by (simp add: Let_def split_def)
  next
    case False
    obtain m1 where s: "SerializeInt64 (- f) p m = (8, m1)"
      by (cases "SerializeInt64 (- f) p m") (auto simp: SerializeInt64_def split: if_splits)
    have f0: "f \<noteq> 0"
      using Cons.prems(3) False by simp
    have szle: "length fs * 8 \<le> unat (sz - 8)"
      using Cons.prems(5) sz8 by (simp add: unat_sub word_le_nat_alt not_less)
    from Cons.IH [OF False _ _ _ szle, of "p + 8" m1 "acc @ [f]"] Cons.prems False
    obtain m' where m': "SerializeFeatureFlags_for fs (p + 8) m1 = Inr m'"
      and d: "DeserializeFeatureFlags_do m' (p + 8) (sz - 8) (acc @ [f]) = Inr ((acc @ [f]) @ fs)"
      by auto
    have same: "m' a = m1 a" if "a < p + 8" for a
      using SerializeFeatureFlags_for_below [OF m' that] .
    have "DeserializeInt64 m' p = DeserializeInt64 m1 p"
      by (rule DeserializeInt64_cong) (simp add: same)
    moreover have "DeserializeInt64 m1 p = (8, - f)"
      using DeserializeInt64_SerializeInt64 [OF Cons.prems(4), of "- f" m] s by simp
    ultimately have rd: "DeserializeInt64 m' p = (8, - f)"
      by simp
    have neg: "- f <s 0"
      using nonneg f0 by (rule minus_positive_sless_zero)
    have ser: "SerializeFeatureFlags_for (f # fs) p m = Inr m'"
      using False nneg s m' by (simp add: Let_def)
    have des: "DeserializeFeatureFlags_do m' p sz acc = Inr (acc @ f # fs)"
      by (subst DeserializeFeatureFlags_do.simps)
         (use sz8 rd neg d abs_int_of_negated_flag [OF small f0] in \<open>simp add: Let_def\<close>)
    show ?thesis
      using ser des by simp
  qed
qed

text \<open>
  C4, as stated: every non-empty list of non-negative flags is returned by the round trip.
  A zero that is not the last flag is written as \<open>-0 = 0\<close>, which the reader takes for the
  last value: \<open>[0, 5]\<close> is written in 16 bytes and read back as \<open>[0]\<close>.
\<close>

theorem feature_flags_zero_counterexample:
  "SerializeFeatureFlags [0, 5] 16 zero_mem
     = Inr (16, snd (projr (SerializeFeatureFlags [0, 5] 16 zero_mem))) \<and>
   DeserializeFeatureFlags (snd (projr (SerializeFeatureFlags [0, 5] 16 zero_mem))) 16 16
     = Inr (8, [0])"
  by (simp add: SerializeFeatureFlags_def DeserializeFeatureFlags_def Let_def
      SerializeInt64_def DeserializeInt64_def abs_int_def word_sless_alt)

text \<open>
  The reader takes the magnitude with \<^verbatim>\<open>int abs(int)\<close>, which keeps the low 32 bits of a flag:
  the single flag \<open>2^40 + 5\<close> is written in 8 bytes and read back as \<open>5\<close>.
\<close>

lemma feature_flags_abs_keeps_32_bits:
  "SerializeFeatureFlags [0x10000000005] 16 zero_mem
     = Inr (8, snd (projr (SerializeFeatureFlags [0x10000000005] 16 zero_mem))) \<and>
   DeserializeFeatureFlags (snd (projr (SerializeFeatureFlags [0x10000000005] 16 zero_mem))) 16 8
     = Inr (8, [5])"
  by (simp add: SerializeFeatureFlags_def DeserializeFeatureFlags_def Let_def
      SerializeInt64_def DeserializeInt64_def abs_int_def word_sless_alt)

text \<open>
  C4, amended: for every non-empty list of non-negative flags, each below \<open>2^31\<close>, in which
  every flag but the last is non-zero, serializing at a real buffer and deserializing with
  a size that covers the 8 bytes per flag yields the input; the empty list is written as
  one zero and read back as \<open>[0]\<close>. (What is read back for a flag of \<open>2^31\<close> or more is left
  open.)
\<close>

theorem feature_flags_round_trip:
  assumes "buffer \<noteq> 0"
  shows "(flags \<noteq> [] \<and> (\<forall>f \<in> set flags. 0 \<le>s f \<and> f < 2 ^ 31) \<and>
            (\<forall>f \<in> set (butlast flags). f \<noteq> 0) \<and> length flags * 8 \<le> unat sz \<longrightarrow>
          (\<exists>m'. SerializeFeatureFlags flags buffer m = Inr (of_nat (length flags * 8), m') \<and>
                DeserializeFeatureFlags m' buffer sz = Inr (of_nat (length flags * 8), flags))) \<and>
         (8 \<le> unat sz \<longrightarrow>
          (\<exists>m'. SerializeFeatureFlags [] buffer m = Inr (8, m') \<and>
                DeserializeFeatureFlags m' buffer sz = Inr (8, [0])))"
proof (intro conjI impI)
  assume h: "flags \<noteq> [] \<and> (\<forall>f \<in> set flags. 0 \<le>s f \<and> f < 2 ^ 31) \<and>
    (\<forall>f \<in> set (butlast flags). f \<noteq> 0) \<and> length flags * 8 \<le> unat sz"
  then have small: "\<forall>f \<in> set flags. unat f < 2 ^ 31"
    by (simp add: word_less_nat_alt)
  from h small obtain m' where "SerializeFeatureFlags_for flags buffer m = Inr m'"
    and "DeserializeFeatureFlags_do m' buffer sz [] = Inr ([] @ flags)"
    using feature_flags_loops [of flags buffer sz m "[]"] assms by blast
  with h assms show "\<exists>m'. SerializeFeatureFlags flags buffer m = Inr (of_nat (length flags * 8), m') \<and>
      DeserializeFeatureFlags m' buffer sz = Inr (of_nat (length flags * 8), flags)"
    by (simp add: SerializeFeatureFlags_def DeserializeFeatureFlags_def)
next
  assume "8 \<le> unat sz"
  then have sz8: "\<not> sz < 8"
    by (simp add: word_less_nat_alt)
  have "DeserializeInt64 (snd (SerializeInt64 0 buffer m)) buffer = (8, 0)"
    using assms by (rule DeserializeInt64_SerializeInt64)
  with sz8 have "DeserializeFeatureFlags (snd (SerializeInt64 0 buffer m)) buffer sz = Inr (8, [0])"
    by (simp add: DeserializeFeatureFlags_def Let_def abs_int_def)
  moreover have "SerializeFeatureFlags [] buffer m = Inr (8, snd (SerializeInt64 0 buffer m))"
    by (simp add: SerializeFeatureFlags_def prod_eq_iff)
  ultimately show "\<exists>m'. SerializeFeatureFlags [] buffer m = Inr (8, m') \<and>
      DeserializeFeatureFlags m' buffer sz = Inr (8, [0])"
    by blast
qed

text \<open>The flags \<open>[3, 2^31 - 1, 0]\<close>, with the largest flag the round trip covers.\<close>

theorem feature_flags_round_trip_witness:
  "SerializeFeatureFlags [3, 0x7FFFFFFF, 0] 16 zero_mem
     = Inr (24, snd (projr (SerializeFeatureFlags [3, 0x7FFFFFFF, 0] 16 zero_mem))) \<and>
   DeserializeFeatureFlags (snd (projr (SerializeFeatureFlags [3, 0x7FFFFFFF, 0] 16 zero_mem))) 16 24
     = Inr (24, [3, 0x7FFFFFFF, 0])"
  using feature_flags_round_trip [of 16 "[3, 0x7FFFFFFF, 0]" 24 zero_mem]
  by (auto simp: word_sle_eq)

section \<open>Reads after writes\<close>

lemma SerializeInt16_outside:
  "a < p \<or> p + 2 \<le> a \<Longrightarrow> snd (SerializeInt16 v p m) a = m a"
  by (auto simp: SerializeInt16_def)

lemma SerializeInt32_outside:
  "a < p \<or> p + 4 \<le> a \<Longrightarrow> snd (SerializeInt32 v p m) a = m a"
  by (auto simp: SerializeInt32_def)

lemma memcpy_outside:
  "a < p \<or> p + length bs \<le> a \<Longrightarrow> memcpy p bs m a = m a"
  by (auto simp: memcpy_def)

lemma DeserializeInt16_cong:
  "(\<And>a. p \<le> a \<Longrightarrow> a < p + 2 \<Longrightarrow> m' a = m a) \<Longrightarrow> DeserializeInt16 m' p = DeserializeInt16 m p"
  by (simp add: DeserializeInt16_def)

lemma DeserializeInt32_cong:
  "(\<And>a. p \<le> a \<Longrightarrow> a < p + 4 \<Longrightarrow> m' a = m a) \<Longrightarrow> DeserializeInt32 m' p = DeserializeInt32 m p"
  by (simp add: DeserializeInt32_def)

lemma DeserializeInt32_after [simp]:
  "p + 4 \<le> q \<or> q + 2 \<le> p \<Longrightarrow> DeserializeInt32 (snd (SerializeInt16 a q m)) p = DeserializeInt32 m p"
  "p + 4 \<le> q \<or> q + 4 \<le> p \<Longrightarrow> DeserializeInt32 (snd (SerializeInt32 b q m)) p = DeserializeInt32 m p"
  "p + 4 \<le> q \<or> q + 8 \<le> p \<Longrightarrow> DeserializeInt32 (snd (SerializeInt64 c q m)) p = DeserializeInt32 m p"
  "p + 4 \<le> q \<or> q + length bs \<le> p \<Longrightarrow> DeserializeInt32 (memcpy q bs m) p = DeserializeInt32 m p"
  by (rule DeserializeInt32_cong;
      auto simp: SerializeInt16_outside SerializeInt32_outside SerializeInt64_outside memcpy_outside)+

lemma DeserializeInt64_after [simp]:
  "p + 8 \<le> q \<or> q + 2 \<le> p \<Longrightarrow> DeserializeInt64 (snd (SerializeInt16 a q m)) p = DeserializeInt64 m p"
  "p + 8 \<le> q \<or> q + 4 \<le> p \<Longrightarrow> DeserializeInt64 (snd (SerializeInt32 b q m)) p = DeserializeInt64 m p"
  "p + 8 \<le> q \<or> q + 8 \<le> p \<Longrightarrow> DeserializeInt64 (snd (SerializeInt64 c q m)) p = DeserializeInt64 m p"
  "p + 8 \<le> q \<or> q + length bs \<le> p \<Longrightarrow> DeserializeInt64 (memcpy q bs m) p = DeserializeInt64 m p"
  by (rule DeserializeInt64_cong;
      auto simp: SerializeInt16_outside SerializeInt32_outside SerializeInt64_outside memcpy_outside)+

section \<open>Locators\<close>

text \<open>
  C10, as stated: every locator with an empty URL is emitted in the inline form. The inline
  branch first checks that \<^verbatim>\<open>fBytesOnStorage\<close> fits a signed 32-bit integer: with
  \<open>fBytesOnStorage = 2^31\<close> and an empty URL nothing is emitted and the call fails.
\<close>

theorem SerializeLocator_empty_url_counterexample:
  "SerializeLocator \<lparr>fPosition = 0, fBytesOnStorage = 0x80000000, fUrl = []\<rparr> 16 zero_mem
     = Inl Locator_too_large"
  by (simp add: SerializeLocator_def word_sless_alt)

text \<open>
  C10, amended: for every locator whose URL is empty, \<^verbatim>\<open>SerializeLocator\<close> never takes the
  URL branch: if \<^verbatim>\<open>fBytesOnStorage\<close> is at least \<open>2^31\<close> it fails with locator-too-large, and
  otherwise it emits the 12 bytes of the inline form (\<^verbatim>\<open>fBytesOnStorage\<close> as \<open>u32\<close>, then
  \<^verbatim>\<open>fPosition\<close> as \<open>u64\<close>), at a null buffer only counting them; \<^verbatim>\<open>DeserializeLocator\<close> on
  the emitted bytes yields the same inline locator, with an empty URL.
\<close>

theorem SerializeLocator_empty_url:
  assumes "fUrl locator = []"
  shows "(fBytesOnStorage locator <s 0 \<longrightarrow>
            SerializeLocator locator buffer m = Inl Locator_too_large) \<and>
         (0 \<le>s fBytesOnStorage locator \<longrightarrow>
            (\<exists>m'. SerializeLocator locator buffer m = Inr (12, m') \<and>
                  (buffer = 0 \<longrightarrow> m' = m) \<and>
                  (buffer \<noteq> 0 \<longrightarrow>
                     DeserializeUInt32 m' buffer = (4, fBytesOnStorage locator) \<and>
                     DeserializeUInt64 m' (buffer + 4) = (8, fPosition locator) \<and>
                     (\<forall>bufSize. 12 \<le> bufSize \<longrightarrow>
                        DeserializeLocator m' buffer bufSize = Inr (12, locator)))))"
proof (intro conjI impI)
  assume "fBytesOnStorage locator <s 0"
  with assms show "SerializeLocator locator buffer m = Inl Locator_too_large"
    by (simp add: SerializeLocator_def)
next
  assume nonneg: "0 \<le>s fBytesOnStorage locator"
  then have nneg: "\<not> fBytesOnStorage locator <s 0"
    by (simp add: not_sless_zero_iff)
  define m' where "m' =
    snd (SerializeInt64 (fPosition locator) (if buffer \<noteq> 0 then buffer + 4 else 0)
      (snd (SerializeInt32 (fBytesOnStorage locator) buffer m)))"
  have ser: "SerializeLocator locator buffer m = Inr (12, m')"
    using assms nneg
    by (simp add: SerializeLocator_def Let_def split_def SerializeUInt32_def SerializeUInt64_def
        m'_def)
  have null: "m' = m" if "buffer = 0"
    using that by (simp add: m'_def)
  have rd32: "DeserializeInt32 m' buffer = (4, fBytesOnStorage locator)" if "buffer \<noteq> 0"
    using that by (simp add: m'_def DeserializeInt32_SerializeInt32)
  have rd64: "DeserializeInt64 m' (buffer + 4) = (8, fPosition locator)" if "buffer \<noteq> 0"
    using that by (simp add: m'_def DeserializeInt64_SerializeInt64)
  have des: "DeserializeLocator m' buffer bufSize = Inr (12, locator)"
    if "buffer \<noteq> 0" and "12 \<le> bufSize" for bufSize
  proof -
    from that(2) have "\<not> bufSize < 4" and "\<not> bufSize - 4 < 8"
      by (simp_all add: word_less_nat_alt word_le_nat_alt unat_sub)
    with rd32 [OF that(1)] rd64 [OF that(1)] nneg assms show ?thesis
      by (simp add: DeserializeLocator_def Let_def DeserializeUInt64_def)
  qed
  show "\<exists>m'. SerializeLocator locator buffer m = Inr (12, m') \<and>
      (buffer = 0 \<longrightarrow> m' = m) \<and>
      (buffer \<noteq> 0 \<longrightarrow>
         DeserializeUInt32 m' buffer = (4, fBytesOnStorage locator) \<and>
         DeserializeUInt64 m' (buffer + 4) = (8, fPosition locator) \<and>
         (\<forall>bufSize. 12 \<le> bufSize \<longrightarrow> DeserializeLocator m' buffer bufSize = Inr (12, locator)))"
    using ser null rd32 rd64 des
    by (auto simp: DeserializeUInt32_def DeserializeUInt64_def)
qed

text \<open>The locator of the spec's example, 42 bytes at position \<open>0x0102030405060708\<close>.\<close>

theorem SerializeLocator_empty_url_witness:
  "SerializeLocator \<lparr>fPosition = 0x0102030405060708, fBytesOnStorage = 42, fUrl = []\<rparr> 16 zero_mem
     = Inr (12, snd (projr (SerializeLocator
         \<lparr>fPosition = 0x0102030405060708, fBytesOnStorage = 42, fUrl = []\<rparr> 16 zero_mem))) \<and>
   DeserializeLocator (snd (projr (SerializeLocator
         \<lparr>fPosition = 0x0102030405060708, fBytesOnStorage = 42, fUrl = []\<rparr> 16 zero_mem))) 16 12
     = Inr (12, \<lparr>fPosition = 0x0102030405060708, fBytesOnStorage = 42, fUrl = []\<rparr>)"
  using SerializeLocator_empty_url
    [of "\<lparr>fPosition = 0x0102030405060708, fBytesOnStorage = 42, fUrl = []\<rparr>" 16 zero_mem]
  by (auto simp: word_sle_eq)

section \<open>Cluster summaries\<close>

lemma sle_zero_of_small:
  assumes "unat (n :: 'a::len word) < 2 ^ (LENGTH('a) - 1)"
  shows "0 \<le>s n"
proof -
  have "int (unat n) < int (2 ^ (LENGTH('a) - 1))"
    using assms by (simp only: of_nat_less_iff)
  then have "uint n < 2 ^ (LENGTH('a) - 1)"
    by simp
  moreover have "0 \<le> uint n"
    by simp
  moreover have "- (2 ^ (LENGTH('a) - 1)) \<le> (0 :: int)"
    by simp
  ultimately have "signed_take_bit (LENGTH('a) - 1) (uint n) = uint n"
    by (intro signed_take_bit_int_eq_self) linarith+
  then have "sint n = uint n"
    by (simp add: sint_uint)
  then show ?thesis
    by (simp add: word_sle_eq)
qed

text \<open>
  C7, as stated: every summary with \<open>n_entries < 2^63\<close> and \<open>column_group_id \<ge> -1\<close> is
  returned by the round trip. With \<open>n_entries = 0\<close> and \<open>column_group_id = 0\<close> the entry count
  is written as \<open>-0 = 0\<close>, which the reader takes for a summary without column group: 24
  bytes are written and the summary read back has \<open>column_group_id = -1\<close>.
\<close>

theorem cluster_summary_zero_entries_counterexample:
  "SerializeClusterSummary \<lparr>fFirstEntry = 7, fNEntries = 0, fColumnGroupID = 0\<rparr> 16 zero_mem
     = Inr (24, snd (projr (SerializeClusterSummary
         \<lparr>fFirstEntry = 7, fNEntries = 0, fColumnGroupID = 0\<rparr> 16 zero_mem))) \<and>
   DeserializeClusterSummary (snd (projr (SerializeClusterSummary
         \<lparr>fFirstEntry = 7, fNEntries = 0, fColumnGroupID = 0\<rparr> 16 zero_mem))) 16 24
     = Inr (24, \<lparr>fFirstEntry = 7, fNEntries = 0, fColumnGroupID = - 1\<rparr>)"
  by (simp add: SerializeClusterSummary_def DeserializeClusterSummary_def Let_def split_def
      where_ptr_def SerializeRecordFramePreamble_def SerializeUInt64_def SerializeUInt32_def
      DeserializeUInt64_def SerializeFramePostscript_def DeserializeFrame_def
      DeserializeInt32_SerializeInt32 DeserializeInt64_SerializeInt64
      word_sle_eq word_sless_alt)

text \<open>
  C7, amended: for every cluster summary with \<open>n_entries < 2^63\<close> and
  \<open>column_group_id \<ge> -1\<close>, and with \<open>n_entries > 0\<close> whenever \<open>column_group_id \<ge> 0\<close>,
  serializing at a real buffer and deserializing returns an equal summary. In the encoding
  (for any \<open>n_entries\<close>), the entry count is written negated and followed by the column group
  id exactly when \<open>column_group_id \<ge> 0\<close> (24 bytes), and is written verbatim otherwise
  (20 bytes).
\<close>

theorem cluster_summary_round_trip:
  assumes "buffer \<noteq> 0"
  shows "\<exists>m'. SerializeClusterSummary cs buffer m
              = Inr (if 0 \<le>s fColumnGroupID cs then 24 else 20, m') \<and>
           DeserializeUInt64 m' (buffer + 4) = (8, fFirstEntry cs) \<and>
           (0 \<le>s fColumnGroupID cs \<longrightarrow>
              DeserializeInt64 m' (buffer + 12) = (8, - fNEntries cs) \<and>
              DeserializeUInt32 m' (buffer + 20) = (4, fColumnGroupID cs)) \<and>
           (\<not> 0 \<le>s fColumnGroupID cs \<longrightarrow>
              DeserializeInt64 m' (buffer + 12) = (8, fNEntries cs)) \<and>
           (unat (fNEntries cs) < 2 ^ 63 \<and> - 1 \<le>s fColumnGroupID cs \<and>
            (0 \<le>s fColumnGroupID cs \<longrightarrow> fNEntries cs \<noteq> 0) \<and>
            (if 0 \<le>s fColumnGroupID cs then 24 else 20) \<le> bufSize \<longrightarrow>
              DeserializeClusterSummary m' buffer bufSize
                = Inr (if 0 \<le>s fColumnGroupID cs then 24 else 20, cs))"
proof (cases "0 \<le>s fColumnGroupID cs")
  case True
  define m' where "m' =
    snd (SerializeInt32 24 buffer
      (snd (SerializeInt32 (fColumnGroupID cs) (buffer + 20)
        (snd (SerializeInt64 (- fNEntries cs) (buffer + 12)
          (snd (SerializeInt64 (fFirstEntry cs) (buffer + 4)
            (snd (SerializeInt32 1 buffer m)))))))))"
  have ser: "SerializeClusterSummary cs buffer m = Inr (24, m')"
    using assms True
    by (simp add: SerializeClusterSummary_def Let_def split_def where_ptr_def
        SerializeRecordFramePreamble_def SerializeUInt64_def SerializeUInt32_def
        SerializeFramePostscript_def DeserializeInt32_SerializeInt32 m'_def
        word_sle_eq word_sless_alt add.assoc)
  have head: "DeserializeInt32 m' buffer = (4, 24)"
    using assms by (simp add: m'_def DeserializeInt32_SerializeInt32)
  have first: "DeserializeInt64 m' (buffer + 4) = (8, fFirstEntry cs)"
    using assms by (simp add: m'_def DeserializeInt64_SerializeInt64)
  have entries: "DeserializeInt64 m' (buffer + 12) = (8, - fNEntries cs)"
    using assms by (simp add: m'_def DeserializeInt64_SerializeInt64)
  have group: "DeserializeInt32 m' (buffer + 20) = (4, fColumnGroupID cs)"
    using assms by (simp add: m'_def DeserializeInt32_SerializeInt32)
  have des: "DeserializeClusterSummary m' buffer bufSize = Inr (24, cs)"
    if "unat (fNEntries cs) < 2 ^ 63" and "fNEntries cs \<noteq> 0" and "24 \<le> bufSize"
  proof -
    from that(3) have big: "\<not> bufSize < 4" "\<not> bufSize < 24"
      by (simp_all add: word_less_nat_alt word_le_nat_alt)
    have "0 \<le>s fNEntries cs"
      using sle_zero_of_small [of "fNEntries cs"] that(1) by simp
    then have neg: "- fNEntries cs <s 0"
      using that(2) by (rule minus_positive_sless_zero)
    have frame: "DeserializeFrame m' buffer bufSize = Inr (4, 24, 1)"
      using head big by (simp add: DeserializeFrame_def Let_def word_sle_eq)
    show ?thesis
      using frame first entries group neg
      by (simp add: DeserializeClusterSummary_def Let_def DeserializeUInt64_def
          DeserializeUInt32_def add.assoc)
  qed
  show ?thesis
    using True ser first entries group des
    by (auto simp: DeserializeUInt64_def DeserializeUInt32_def)
next
  case False
  define m' where "m' =
    snd (SerializeInt32 20 buffer
      (snd (SerializeInt64 (fNEntries cs) (buffer + 12)
        (snd (SerializeInt64 (fFirstEntry cs) (buffer + 4)
          (snd (SerializeInt32 1 buffer m)))))))"
  have ser: "SerializeClusterSummary cs buffer m = Inr (20, m')"
    using assms False
    by (simp add: SerializeClusterSummary_def Let_def split_def where_ptr_def
        SerializeRecordFramePreamble_def SerializeUInt64_def SerializeUInt32_def
        SerializeFramePostscript_def DeserializeInt32_SerializeInt32 m'_def
        word_sle_eq word_sless_alt add.assoc)
  have head: "DeserializeInt32 m' buffer = (4, 20)"
    using assms by (simp add: m'_def DeserializeInt32_SerializeInt32)
  have first: "DeserializeInt64 m' (buffer + 4) = (8, fFirstEntry cs)"
    using assms by (simp add: m'_def DeserializeInt64_SerializeInt64)
  have entries: "DeserializeInt64 m' (buffer + 12) = (8, fNEntries cs)"
    using assms by (simp add: m'_def DeserializeInt64_SerializeInt64)
  have des: "DeserializeClusterSummary m' buffer bufSize = Inr (20, cs)"
    if "unat (fNEntries cs) < 2 ^ 63" and "- 1 \<le>s fColumnGroupID cs" and "20 \<le> bufSize"
  proof -
    from that(3) have big: "\<not> bufSize < 4" "\<not> bufSize < 20"
      by (simp_all add: word_less_nat_alt word_le_nat_alt)
    have "0 \<le>s fNEntries cs"
      using sle_zero_of_small [of "fNEntries cs"] that(1) by simp
    then have nneg: "\<not> fNEntries cs <s 0"
      by (simp add: not_sless_zero_iff)
    have "sint (fColumnGroupID cs) = sint (- 1 :: int32_t)"
      using that(2) False by (simp add: word_sle_eq)
    then have gid: "fColumnGroupID cs = - 1"
      by (rule signed_word_eqI)
    have frame: "DeserializeFrame m' buffer bufSize = Inr (4, 20, 1)"
      using head big by (simp add: DeserializeFrame_def Let_def word_sle_eq)
    show ?thesis
      using frame first entries nneg gid
      by (simp add: DeserializeClusterSummary_def Let_def DeserializeUInt64_def add.assoc)
  qed
  show ?thesis
    using False ser first entries des
    by (auto simp: DeserializeUInt64_def)
qed

theorem cluster_summary_round_trip_witness:
  "SerializeClusterSummary \<lparr>fFirstEntry = 7, fNEntries = 100, fColumnGroupID = 3\<rparr> 16 zero_mem
     = Inr (24, snd (projr (SerializeClusterSummary
         \<lparr>fFirstEntry = 7, fNEntries = 100, fColumnGroupID = 3\<rparr> 16 zero_mem))) \<and>
   DeserializeClusterSummary (snd (projr (SerializeClusterSummary
         \<lparr>fFirstEntry = 7, fNEntries = 100, fColumnGroupID = 3\<rparr> 16 zero_mem))) 16 24
     = Inr (24, \<lparr>fFirstEntry = 7, fNEntries = 100, fColumnGroupID = 3\<rparr>)"
  using cluster_summary_round_trip
    [of 16 "\<lparr>fFirstEntry = 7, fNEntries = 100, fColumnGroupID = 3\<rparr>" zero_mem 24]
  by (auto simp: word_sle_eq)

section \<open>Envelopes on the read path\<close>

lemma crc32_zlib_check: "crc32_zlib (crc32_zlib 0 []) (map of_char ''123456789'') = 0xCBF43926"
  by code_simp

text \<open>
  C8, as stated: on a buffer with a valid trailing CRC, \<^verbatim>\<open>DeserializeEnvelope\<close> fails with
  format-too-new exactly when \<open>version_min_required > 1\<close>. The version at write is tested
  first: the 8-byte envelope \<open>00 00 02 00\<close> with its CRC-32 \<open>9E BD 72 13\<close> has
  \<open>version_min_required = 2\<close> and fails with format-too-old.
\<close>

theorem DeserializeEnvelope_too_old_first_counterexample:
  "VerifyCRC32 crc32_zlib
     (memcpy 16 [0x00, 0x00, 0x02, 0x00, 0x9E, 0xBD, 0x72, 0x13] zero_mem) 16 4 = Inr () \<and>
   snd (DeserializeUInt16
     (memcpy 16 [0x00, 0x00, 0x02, 0x00, 0x9E, 0xBD, 0x72, 0x13] zero_mem) 18) = 2 \<and>
   DeserializeEnvelope crc32_zlib
     (memcpy 16 [0x00, 0x00, 0x02, 0x00, 0x9E, 0xBD, 0x72, 0x13] zero_mem) 16 8
     = Inl Format_too_old"
  by code_simp

text \<open>
  C8, amended: \<^verbatim>\<open>DeserializeEnvelope\<close> fails with the too-short error for every buffer size
  below 8. On a buffer of at least 8 bytes whose trailing CRC is valid, it fails with
  format-too-old exactly when \<open>version_at_write < 1\<close>, and with format-too-new exactly when
  \<open>version_at_write \<ge> 1\<close> and \<open>version_min_required > 1\<close> (the current version constant);
  when it succeeds it returns 4.
\<close>

theorem DeserializeEnvelope_version_gates:
  "(bufSize < 8 \<longrightarrow> DeserializeEnvelope crc m buffer bufSize = Inl Invalid_envelope_too_short) \<and>
   (8 \<le> bufSize \<and> VerifyCRC32 crc m buffer (bufSize - 4) = Inr () \<longrightarrow>
      (DeserializeEnvelope crc m buffer bufSize = Inl Format_too_old \<longleftrightarrow>
         snd (DeserializeUInt16 m buffer) < 1) \<and>
      (DeserializeEnvelope crc m buffer bufSize = Inl Format_too_new \<longleftrightarrow>
         1 \<le> snd (DeserializeUInt16 m buffer) \<and> 1 < snd (DeserializeUInt16 m (buffer + 2))) \<and>
      (DeserializeEnvelope crc m buffer bufSize = Inr 4 \<longleftrightarrow>
         1 \<le> snd (DeserializeUInt16 m buffer) \<and> snd (DeserializeUInt16 m (buffer + 2)) \<le> 1) \<and>
      (\<forall>r. DeserializeEnvelope crc m buffer bufSize = Inr r \<longrightarrow> r = 4)) \<and>
   kEnvelopeCurrentVersion = 1"
proof -
  have width: "fst (DeserializeUInt16 m p) = 2" for p
    by (simp add: DeserializeUInt16_def DeserializeInt16_def)
  show ?thesis
    by (auto simp: DeserializeEnvelope_def Let_def split_def width kEnvelopeCurrentVersion_def
        not_less word_le_nat_alt word_less_nat_alt)
qed

text \<open>The envelope \<open>01 00 01 00\<close> with its CRC-32 \<open>38 89 E3 80\<close> is accepted.\<close>

theorem DeserializeEnvelope_version_gates_witness:
  "VerifyCRC32 crc32_zlib
     (memcpy 16 [0x01, 0x00, 0x01, 0x00, 0x38, 0x89, 0xE3, 0x80] zero_mem) 16 4 = Inr () \<and>
   DeserializeEnvelope crc32_zlib
     (memcpy 16 [0x01, 0x00, 0x01, 0x00, 0x38, 0x89, 0xE3, 0x80] zero_mem) 16 8 = Inr 4"
proof -
  let ?m = "memcpy 16 [0x01, 0x00, 0x01, 0x00, 0x38, 0x89, 0xE3, 0x80] zero_mem"
  have le: "(8 :: uint32_t) \<le> 8" and sub: "(8 :: uint32_t) - 4 = 4" and add: "(16 :: nat) + 2 = 18"
    by simp_all
  have one: "(1 :: uint16_t) \<le> 1"
    by simp
  have crc: "VerifyCRC32 crc32_zlib ?m 16 4 = Inr ()"
    by code_simp
  have v1: "snd (DeserializeUInt16 ?m 16) = 1"
    by code_simp
  have v2: "snd (DeserializeUInt16 ?m 18) = 1"
    by code_simp
  from DeserializeEnvelope_version_gates [of 8 crc32_zlib ?m 16]
  have "8 \<le> (8 :: uint32_t) \<and> VerifyCRC32 crc32_zlib ?m 16 (8 - 4) = Inr () \<longrightarrow>
     (DeserializeEnvelope crc32_zlib ?m 16 8 = Inr 4 \<longleftrightarrow>
         1 \<le> snd (DeserializeUInt16 ?m 16) \<and> snd (DeserializeUInt16 ?m (16 + 2)) \<le> 1)"
    by blast
  then have "DeserializeEnvelope crc32_zlib ?m 16 8 = Inr 4"
    unfolding sub add v1 v2 using le one crc by blast
  with crc show ?thesis
    by blast
qed

section \<open>Field records\<close>

lemma fst_SerializeString [simp]:
  "fst (SerializeString val buffer m) = of_nat (4 + length val)"
  by (simp add: SerializeString_def Let_def split_def)

lemma fst_SerializeFieldStructure [simp]:
  "fst (SerializeFieldStructure st buffer m) = 2"
  by (cases st) (simp_all add: split_def SerializeUInt16_def)

lemma DeserializeInt32_after_SerializeString [simp]:
  "p + 4 \<le> q \<Longrightarrow> DeserializeInt32 (snd (SerializeString val q m)) p = DeserializeInt32 m p"
  by (simp add: SerializeString_def Let_def split_def SerializeUInt32_def)

lemma DeserializeInt32_after_SerializeFieldStructure [simp]:
  "p + 4 \<le> q \<Longrightarrow>
   DeserializeInt32 (snd (SerializeFieldStructure st q m)) p = DeserializeInt32 m p"
  by (cases st) (simp_all add: split_def SerializeUInt16_def)

lemma unat_of_nat_32: "n < 2 ^ 32 \<Longrightarrow> unat (of_nat n :: 32 word) = n"
  by (simp add: unat_of_nat)

lemma unat_plus_of_nat_32:
  assumes "unat (sz :: 32 word) + n < 2 ^ 31"
  shows "unat (sz + of_nat n) = unat sz + n"
proof -
  have "n < 2 ^ 32"
    using assms by simp
  then have n: "unat (of_nat n :: 32 word) = n"
    by (rule unat_of_nat_32)
  have "unat sz + unat (of_nat n :: 32 word) < 2 ^ LENGTH(32)"
    using assms n by simp
  then have "unat (sz + of_nat n) = unat sz + unat (of_nat n :: 32 word)"
    by (simp only: unat_add_lem)
  with n show ?thesis
    by simp
qed

lemma not_sless_of_small_32:
  assumes "4 \<le> unat (x :: 32 word)" and "unat x < 2 ^ 31"
  shows "\<not> x <s 0" and "\<not> x <s 4"
proof -
  have "sint x = int (unat x)"
    using sint_eq_unat_of_small [of x] assms(2) by simp
  moreover have "int 4 \<le> int (unat x)"
    using assms(1) by (simp only: of_nat_le_iff)
  ultimately have "4 \<le> sint x"
    by simp
  then show "\<not> x <s 0" and "\<not> x <s 4"
    by (simp_all add: word_sless_alt)
qed

lemma case_Serialize:
  "(case SerializeInt16 a p m of (n, m') \<Rightarrow> g16 n m') = g16 2 (snd (SerializeInt16 a p m))"
  "(case SerializeInt32 b p m of (n, m') \<Rightarrow> g32 n m') = g32 4 (snd (SerializeInt32 b p m))"
  "(case SerializeInt64 c p m of (n, m') \<Rightarrow> g64 n m') = g64 8 (snd (SerializeInt64 c p m))"
  "(case SerializeString val p m of (n, m') \<Rightarrow> gs n m')
     = gs (of_nat (4 + length val)) (snd (SerializeString val p m))"
  "(case SerializeFieldStructure st p m of (n, m') \<Rightarrow> gf n m')
     = gf 2 (snd (SerializeFieldStructure st p m))"
  by (simp_all add: split_def)

lemma SerializeFieldsV1_body_size:
  assumes "unat sz + record_bytes f < 2 ^ 31"
  shows "\<exists>m'. SerializeFieldsV1_body f physParentId sz buffer m
             = Inr (sz + of_nat (record_bytes f), m') \<and>
           (buffer \<noteq> 0 \<longrightarrow> DeserializeInt32 m' buffer = (4, sz + of_nat (record_bytes f)))"
proof -
  have small: "4 + length (fFieldName f) < 2 ^ 32" "4 + length (fTypeName f) < 2 ^ 32"
    "4 + length (fFieldDescription f) < 2 ^ 32"
    using assms by (simp_all add: record_bytes_def)
  note lens = small [THEN unat_of_nat_32]
  have total: "unat (sz + of_nat (record_bytes f)) = unat sz + record_bytes f"
    using assms by (rule unat_plus_of_nat_32)
  have ge4: "4 \<le> unat (sz + of_nat (record_bytes f))"
    unfolding total by (simp add: record_bytes_def)
  have lt: "unat (sz + of_nat (record_bytes f)) < 2 ^ 31"
    unfolding total using assms .
  note nneg = not_sless_of_small_32 [OF ge4 lt]
  note defs = SerializeFieldsV1_body_def Let_def case_Serialize where_ptr_def
    SerializeRecordFramePreamble_def SerializeUInt32_def SerializeUInt16_def
    SerializeUInt64_def SerializeFramePostscript_def record_bytes_def
    DeserializeInt32_SerializeInt32 word_sless_alt
  show ?thesis
  proof (cases "0 < fNRepetitions f")
    case True
    with nneg lens show ?thesis
      by (cases "buffer = 0") (simp_all add: defs)
  next
    case False
    with nneg lens show ?thesis
      by (cases "buffer = 0") (simp_all add: defs)
  qed
qed

lemma SerializeFieldsV1_for_size:
  assumes "unat sz + sum_list (map record_bytes fs) < 2 ^ 31"
  shows "\<exists>m'. SerializeFieldsV1_for fs physParentId idQueue sz buffer m
             = Inr (idQueue @ map fFieldId fs, sz + of_nat (sum_list (map record_bytes fs)), m')"
  using assms
proof (induction fs arbitrary: idQueue sz m)
  case Nil
  then show ?case by simp
next
  case (Cons f fs)
  from Cons.prems have one: "unat sz + record_bytes f < 2 ^ 31"
    by simp
  then obtain m1 where body:
    "SerializeFieldsV1_body f physParentId sz buffer m = Inr (sz + of_nat (record_bytes f), m1)"
    using SerializeFieldsV1_body_size [of sz f physParentId buffer m] by blast
  have "unat (sz + of_nat (record_bytes f)) = unat sz + record_bytes f"
    using one by (rule unat_plus_of_nat_32)
  with Cons.prems
  have rest: "unat (sz + of_nat (record_bytes f)) + sum_list (map record_bytes fs) < 2 ^ 31"
    by simp
  from Cons.IH [OF rest, of "idQueue @ [fFieldId f]" m1] body show ?case
    by (auto simp: add.assoc)
qed

section \<open>The order of the physical field ids\<close>

lemma MapFieldId_eq:
  "MapFieldId memId c =
     (of_nat (length (fPhys2MemFieldIDs c)),
      c\<lparr>fMem2PhysFieldIDs := (fMem2PhysFieldIDs c)(memId \<mapsto> of_nat (length (fPhys2MemFieldIDs c))),
        fPhys2MemFieldIDs := fPhys2MemFieldIDs c @ [memId]\<rparr>)"
  by (simp add: MapFieldId_def Let_def)

lemma fold_MapFieldId_phys2mem:
  "fPhys2MemFieldIDs (fold (\<lambda>memId c. snd (MapFieldId memId c)) ids c)
     = fPhys2MemFieldIDs c @ ids"
  by (induction ids arbitrary: c) (simp_all add: MapFieldId_eq)

lemma fold_MapFieldId_other:
  "i \<notin> set ids \<Longrightarrow>
   fMem2PhysFieldIDs (fold (\<lambda>memId c. snd (MapFieldId memId c)) ids c) i = fMem2PhysFieldIDs c i"
  by (induction ids arbitrary: c) (simp_all add: MapFieldId_eq)

lemma fold_MapFieldId_nth:
  assumes "distinct ids" and "k < length ids"
  shows "fMem2PhysFieldIDs (fold (\<lambda>memId c. snd (MapFieldId memId c)) ids c) (ids ! k)
           = Some (of_nat (length (fPhys2MemFieldIDs c) + k))"
  using assms
proof (induction ids arbitrary: c k)
  case Nil
  then show ?case by simp
next
  case (Cons i ids)
  show ?case
  proof (cases k)
    case 0
    with Cons.prems show ?thesis
      by (simp add: fold_MapFieldId_other) (simp add: MapFieldId_eq)
  next
    case (Suc k')
    with Cons.prems Cons.IH [of k' "snd (MapFieldId i c)"] show ?thesis
      by (simp add: MapFieldId_eq)
  qed
qed

lemma length_all_nodes: "length (all_nodes (Field_node f ts)) = Suc (sum_list (map (length \<circ> all_nodes) ts))"
  by (simp add: length_concat comp_def)

lemma length_breadth_first:
  "length (breadth_first ts) = sum_list (map (length \<circ> all_nodes) ts)"
  by (induction ts rule: breadth_first.induct) (simp_all add: length_concat comp_def)

lemma set_breadth_first:
  "set (breadth_first ts) = root_field ` (\<Union>t \<in> set ts. set (all_nodes t))"
  by (induction ts rule: breadth_first.induct) auto

lemma distinct_breadth_first:
  assumes "distinct (map (fFieldId \<circ> root_field) (all_nodes t))"
  shows "distinct (map fFieldId (breadth_first [t]))"
proof -
  have len: "length (breadth_first [t]) = length (all_nodes t)"
    by (simp add: length_breadth_first)
  have "set (map fFieldId (breadth_first [t])) = set (map (fFieldId \<circ> root_field) (all_nodes t))"
    by (simp add: set_breadth_first image_comp)
  then have "card (set (map fFieldId (breadth_first [t])))
      = card (set (map (fFieldId \<circ> root_field) (all_nodes t)))"
    by simp
  also have "\<dots> = length (map (fFieldId \<circ> root_field) (all_nodes t))"
    using assms by (rule distinct_card)
  finally have "card (set (map fFieldId (breadth_first [t]))) = length (map fFieldId (breadth_first [t]))"
    using len by simp
  then show ?thesis
    by (rule card_distinct)
qed

lemma bytes_below_split:
  "bytes_below (Field_node f ts)
     = sum_list (map record_bytes (map root_field ts)) + sum_list (map bytes_below ts)"
  by (simp add: sum_list_addf comp_def)

lemma SerializeFieldsV1_while_forest:
  assumes "\<forall>t \<in> set ts. \<forall>n \<in> set (all_nodes t).
             GetFieldIterable desc (fFieldId (root_field n)) = map root_field (sub_fields n)"
    and "unat sz + sum_list (map bytes_below ts) < 2 ^ 31"
    and "sum_list (map (length \<circ> all_nodes) ts) \<le> fuel"
  shows "\<exists>sz' m'. SerializeFieldsV1_while fuel desc (map (fFieldId \<circ> root_field) ts) ctx sz buffer m
           = Some (Inr (fold (\<lambda>memId c. snd (MapFieldId memId c))
                          (map fFieldId (breadth_first ts)) ctx, sz', m'))"
  using assms
proof (induction ts arbitrary: fuel ctx sz m rule: breadth_first.induct)
  case 1
  then show ?case by simp
next
  case (2 f cs queue)
  let ?children = "map root_field cs"
  let ?R = "sum_list (map record_bytes ?children)"
  from "2.prems"(3) obtain fuel' where fuel: "fuel = Suc fuel'"
    and fuel': "sum_list (map (length \<circ> all_nodes) (queue @ cs)) \<le> fuel'"
    by (cases fuel) (simp_all add: length_concat comp_def)
  have iter: "GetFieldIterable desc (fFieldId f) = ?children"
    using "2.prems"(1) by simp
  have bytes: "unat sz + ?R + sum_list (map bytes_below (queue @ cs)) < 2 ^ 31"
    using "2.prems"(2) by (simp add: bytes_below_split del: bytes_below.simps)
  then have "unat sz + ?R < 2 ^ 31"
    by simp
  then obtain m1 where loop:
    "SerializeFieldsV1_for ?children (fst (MapFieldId (fFieldId f) ctx))
       (map (fFieldId \<circ> root_field) queue) sz buffer m
     = Inr (map (fFieldId \<circ> root_field) queue @ map fFieldId ?children, sz + of_nat ?R, m1)"
    and sz1: "unat (sz + of_nat ?R) = unat sz + ?R"
    using SerializeFieldsV1_for_size [of sz ?children] unat_plus_of_nat_32 [of sz ?R] by blast
  have nodes: "\<forall>t \<in> set (queue @ cs). \<forall>n \<in> set (all_nodes t).
      GetFieldIterable desc (fFieldId (root_field n)) = map root_field (sub_fields n)"
    using "2.prems"(1) by auto
  have bytes1: "unat (sz + of_nat ?R) + sum_list (map bytes_below (queue @ cs)) < 2 ^ 31"
    using bytes sz1 by simp
  from "2.IH" [OF nodes bytes1 fuel', of "snd (MapFieldId (fFieldId f) ctx)" m1]
  obtain sz' m' where rest:
    "SerializeFieldsV1_while fuel' desc (map (fFieldId \<circ> root_field) (queue @ cs))
       (snd (MapFieldId (fFieldId f) ctx)) (sz + of_nat ?R) buffer m1
     = Some (Inr (fold (\<lambda>memId c. snd (MapFieldId memId c))
                    (map fFieldId (breadth_first (queue @ cs)))
                    (snd (MapFieldId (fFieldId f) ctx)), sz', m'))"
    by blast
  have "SerializeFieldsV1_while fuel desc
          (map (fFieldId \<circ> root_field) (Field_node f cs # queue)) ctx sz buffer m
      = SerializeFieldsV1_while fuel' desc (map (fFieldId \<circ> root_field) (queue @ cs))
          (snd (MapFieldId (fFieldId f) ctx)) (sz + of_nat ?R) buffer m1"
    unfolding fuel
    by (simp only: list.map comp_apply root_field.simps SerializeFieldsV1_while.simps Let_def
        split_def iter loop sum.case prod.case map_append map_map fst_conv snd_conv)
  with rest show ?case
    by (simp only: breadth_first.simps list.map fold_simps) blast
qed

lemma SerializeFieldsV1_for_queue:
  "SerializeFieldsV1_for fs physParentId idQueue sz buffer m = Inr (idQueue', sz', m') \<Longrightarrow>
   idQueue' = idQueue @ map fFieldId fs"
proof (induction fs arbitrary: idQueue sz m)
  case Nil
  then show ?case by simp
next
  case (Cons f fs)
  from Cons.prems obtain sz1 m1 where
    "SerializeFieldsV1_for fs physParentId (idQueue @ [fFieldId f]) sz1 buffer m1
       = Inr (idQueue', sz', m')"
    by (auto split: sum.splits)
  from Cons.IH [OF this] show ?case
    by simp
qed

lemma SerializeFieldsV1_while_returns:
  assumes "\<forall>t \<in> set ts. \<forall>n \<in> set (all_nodes t).
             GetFieldIterable desc (fFieldId (root_field n)) = map root_field (sub_fields n)"
    and "SerializeFieldsV1_while fuel desc (map (fFieldId \<circ> root_field) ts) ctx sz buffer m
           = Some (Inr (ctx', sz', m'))"
  shows "ctx' = fold (\<lambda>memId c. snd (MapFieldId memId c)) (map fFieldId (breadth_first ts)) ctx"
  using assms
proof (induction ts arbitrary: fuel ctx sz m rule: breadth_first.induct)
  case 1
  then show ?case by simp
next
  case (2 f cs queue)
  let ?children = "map root_field cs"
  have iter: "GetFieldIterable desc (fFieldId f) = ?children"
    using "2.prems"(1) by simp
  from "2.prems"(2) obtain fuel' where fuel: "fuel = Suc fuel'"
    by (cases fuel) simp_all
  from "2.prems"(2) obtain idQueue1 sz1 m1 where loop:
    "SerializeFieldsV1_for ?children (fst (MapFieldId (fFieldId f) ctx))
       (map (fFieldId \<circ> root_field) queue) sz buffer m = Inr (idQueue1, sz1, m1)"
    and rest: "SerializeFieldsV1_while fuel' desc idQueue1
       (snd (MapFieldId (fFieldId f) ctx)) sz1 buffer m1 = Some (Inr (ctx', sz', m'))"
    unfolding fuel
    by (simp only: list.map comp_apply root_field.simps SerializeFieldsV1_while.simps Let_def
        split_def iter)
       (auto split: sum.splits simp: comp_def)
  from SerializeFieldsV1_for_queue [OF loop]
  have "idQueue1 = map (fFieldId \<circ> root_field) (queue @ cs)"
    by simp
  with rest have rest':
    "SerializeFieldsV1_while fuel' desc (map (fFieldId \<circ> root_field) (queue @ cs))
       (snd (MapFieldId (fFieldId f) ctx)) sz1 buffer m1 = Some (Inr (ctx', sz', m'))"
    by simp
  have nodes: "\<forall>t \<in> set (queue @ cs). \<forall>n \<in> set (all_nodes t).
      GetFieldIterable desc (fFieldId (root_field n)) = map root_field (sub_fields n)"
    using "2.prems"(1) by auto
  from "2.IH" [OF nodes rest'] show ?case
    by simp
qed

text \<open>
  C6. For every descriptor that describes a field tree with pairwise distinct field ids,
  whenever \<^verbatim>\<open>SerializeFieldsV1\<close> (started on the fresh context, as \<^verbatim>\<open>SerializeHeaderV1\<close> does,
  at a null or a real buffer) returns, the context lists the fields in breadth-first order
  from field-zero, and the \<open>k\<close>-th field of that order has the physical id \<open>k\<close>, for
  \<open>k = 0, \<dots>, n_fields - 1\<close>. It does return when the field records stay below the frame
  limit of \<open>2^31\<close> bytes and the loop is given one iteration per field. An id is the number
  of fields mapped before it, and mapping another field leaves it as it is.
\<close>

theorem physical_field_ids_breadth_first:
  assumes "describes desc t"
    and "distinct (map (fFieldId \<circ> root_field) (all_nodes t))"
  shows "(bytes_below t < 2 ^ 31 \<and> length (all_nodes t) \<le> fuel \<longrightarrow>
            (\<exists>ctx sz m'. SerializeFieldsV1 fuel desc RContext_default buffer m
                            = Some (Inr (ctx, sz, m')))) \<and>
         (\<forall>ctx sz m'.
            SerializeFieldsV1 fuel desc RContext_default buffer m = Some (Inr (ctx, sz, m')) \<longrightarrow>
            fPhys2MemFieldIDs ctx = map fFieldId (breadth_first [t]) \<and>
            length (fPhys2MemFieldIDs ctx) = GetNFields desc \<and>
            (\<forall>k < GetNFields desc.
               fMem2PhysFieldIDs ctx (fPhys2MemFieldIDs ctx ! k) = Some (of_nat k))) \<and>
         (\<forall>c i. fst (MapFieldId i c) = of_nat (length (fPhys2MemFieldIDs c)) \<and>
                fMem2PhysFieldIDs (snd (MapFieldId i c)) i = Some (fst (MapFieldId i c)) \<and>
                (\<forall>j. j \<noteq> i \<longrightarrow>
                   fMem2PhysFieldIDs (snd (MapFieldId i c)) j = fMem2PhysFieldIDs c j))"
proof -
  let ?ids = "map fFieldId (breadth_first [t])"
  let ?ctx = "fold (\<lambda>memId c. snd (MapFieldId memId c)) ?ids RContext_default"
  have nodes: "\<forall>t' \<in> set [t]. \<forall>n \<in> set (all_nodes t').
      GetFieldIterable desc (fFieldId (root_field n)) = map root_field (sub_fields n)"
    using assms(1) by (simp add: describes_def)
  have start: "SerializeFieldsV1 fuel desc RContext_default buffer m
      = SerializeFieldsV1_while fuel desc (map (fFieldId \<circ> root_field) [t]) RContext_default 0
          buffer m"
    using assms(1) by (simp add: SerializeFieldsV1_def describes_def)
  have returns: "\<exists>ctx sz m'. SerializeFieldsV1 fuel desc RContext_default buffer m
      = Some (Inr (ctx, sz, m'))"
    if "bytes_below t < 2 ^ 31 \<and> length (all_nodes t) \<le> fuel"
  proof -
    from that have bytes: "unat (0 :: uint32_t) + sum_list (map bytes_below [t]) < 2 ^ 31"
      and fuel: "sum_list (map (length \<circ> all_nodes) [t]) \<le> fuel"
      by simp_all
    from SerializeFieldsV1_while_forest [OF nodes bytes fuel, of RContext_default buffer m]
    show ?thesis
      unfolding start by blast
  qed
  have order: "fPhys2MemFieldIDs ?ctx = ?ids"
    by (simp add: fold_MapFieldId_phys2mem RContext_default_def)
  have count: "length (fPhys2MemFieldIDs ?ctx) = GetNFields desc"
    using assms(1) by (simp add: order length_breadth_first describes_def)
  have dist: "distinct ?ids"
    using assms(2) by (rule distinct_breadth_first)
  have ids: "fMem2PhysFieldIDs ?ctx (fPhys2MemFieldIDs ?ctx ! k) = Some (of_nat k)"
    if "k < GetNFields desc" for k
  proof -
    from that count order have "k < length ?ids"
      by simp
    from fold_MapFieldId_nth [OF dist this, of RContext_default] show ?thesis
      by (simp add: order) (simp add: RContext_default_def)
  qed
  have result: "ctx = ?ctx"
    if "SerializeFieldsV1 fuel desc RContext_default buffer m = Some (Inr (ctx, sz, m'))"
    for ctx sz m'
    using that unfolding start by (rule SerializeFieldsV1_while_returns [OF nodes])
  have mapped: "fPhys2MemFieldIDs ctx = ?ids \<and>
      length (fPhys2MemFieldIDs ctx) = GetNFields desc \<and>
      (\<forall>k < GetNFields desc. fMem2PhysFieldIDs ctx (fPhys2MemFieldIDs ctx ! k) = Some (of_nat k))"
    if "SerializeFieldsV1 fuel desc RContext_default buffer m = Some (Inr (ctx, sz, m'))"
    for ctx sz m'
    unfolding result [OF that] using order count ids by blast
  have assign: "fst (MapFieldId i c) = of_nat (length (fPhys2MemFieldIDs c)) \<and>
      fMem2PhysFieldIDs (snd (MapFieldId i c)) i = Some (fst (MapFieldId i c)) \<and>
      (\<forall>j. j \<noteq> i \<longrightarrow> fMem2PhysFieldIDs (snd (MapFieldId i c)) j = fMem2PhysFieldIDs c j)"
    for c i
    by (simp add: MapFieldId_eq)
  show ?thesis
    using returns mapped assign by blast
qed

text \<open>
  The example descriptor: breadth-first order is field-zero, \<open>hits\<close>, \<open>pt\<close>, \<open>_0\<close> (ids 0, 2, 1,
  3), so \<open>pt\<close> receives the physical id 2 and the item field of \<open>hits\<close> the physical id 3.
\<close>

theorem physical_field_ids_breadth_first_witness:
  "describes example_desc example_tree \<and>
   fPhys2MemFieldIDs (fst (projr (the
     (SerializeFieldsV1 4 example_desc RContext_default 16 zero_mem)))) = [0, 2, 1, 3] \<and>
   fMem2PhysFieldIDs (fst (projr (the
     (SerializeFieldsV1 4 example_desc RContext_default 16 zero_mem)))) 1 = Some 2 \<and>
   fMem2PhysFieldIDs (fst (projr (the
     (SerializeFieldsV1 4 example_desc RContext_default 16 zero_mem)))) 3 = Some 3"
proof -
  have d: "describes example_desc example_tree"
    by code_simp
  have ids: "distinct (map (fFieldId \<circ> root_field) (all_nodes example_tree))"
    by code_simp
  have "bytes_below example_tree = 144"
    by code_simp
  then have bytes: "bytes_below example_tree < 2 ^ 31"
    by simp
  have fuel: "length (all_nodes example_tree) \<le> 4"
    by code_simp
  have n: "GetNFields example_desc = 4"
    by (simp add: example_desc_def)
  have order: "map fFieldId (breadth_first [example_tree]) = [0, 2, 1, 3]"
    by code_simp
  note inst = physical_field_ids_breadth_first [OF d ids, of 4 16 zero_mem]
  from inst bytes fuel obtain ctx sz m' where
    run: "SerializeFieldsV1 4 example_desc RContext_default 16 zero_mem = Some (Inr (ctx, sz, m'))"
    by blast
  with inst have phys: "fPhys2MemFieldIDs ctx = [0, 2, 1, 3]"
    and mem: "\<And>k. k < 4 \<Longrightarrow> fMem2PhysFieldIDs ctx (fPhys2MemFieldIDs ctx ! k) = Some (of_nat k)"
    unfolding n order by blast+
  from mem [of 2] mem [of 3] phys
  have "fMem2PhysFieldIDs ctx 1 = Some 2" and "fMem2PhysFieldIDs ctx 3 = Some 3"
    by simp_all
  with d run phys show ?thesis
    by simp
qed

section \<open>Frame heads and the header size\<close>

lemma SerializeFramePostscript_head:
  assumes "frame \<noteq> 0" and "4 \<le> unat sz" and "unat sz < 2 ^ 31"
  shows "DeserializeInt32 m frame = (4, 1) \<longrightarrow>
           (\<exists>m'. SerializeFramePostscript frame sz m = Inr (0, m') \<and>
                 DeserializeInt32 m' frame = (4, sz))"
    and "DeserializeInt32 m frame = (4, - 1) \<and> 8 \<le> unat sz \<longrightarrow>
           (\<exists>m'. SerializeFramePostscript frame sz m = Inr (0, m') \<and>
                 DeserializeInt32 m' frame = (4, - sz) \<and>
                 DeserializeUInt32 m' (frame + 4) = DeserializeUInt32 m (frame + 4))"
proof -
  note nneg = not_sless_of_small_32 [OF assms(2,3)]
  show "DeserializeInt32 m frame = (4, 1) \<longrightarrow>
      (\<exists>m'. SerializeFramePostscript frame sz m = Inr (0, m') \<and>
            DeserializeInt32 m' frame = (4, sz))"
    using assms(1) nneg
    by (simp add: SerializeFramePostscript_def DeserializeInt32_SerializeInt32 word_sless_alt)
  have "\<not> sz <s 2 * 4" if "8 \<le> unat sz"
  proof -
    have "sint sz = int (unat sz)"
      using sint_eq_unat_of_small [of sz] assms(3) by simp
    moreover have "int 8 \<le> int (unat sz)"
      using that by (simp only: of_nat_le_iff)
    ultimately show ?thesis
      by (simp add: word_sless_alt)
  qed
  then show "DeserializeInt32 m frame = (4, - 1) \<and> 8 \<le> unat sz \<longrightarrow>
      (\<exists>m'. SerializeFramePostscript frame sz m = Inr (0, m') \<and>
            DeserializeInt32 m' frame = (4, - sz) \<and>
            DeserializeUInt32 m' (frame + 4) = DeserializeUInt32 m (frame + 4))"
    using assms(1) nneg
    by (simp add: SerializeFramePostscript_def DeserializeInt32_SerializeInt32
        DeserializeUInt32_def)
qed

text \<open>
  C2. The claim is that every frame carries its own size in its head, the per-field record
  frames of header serialization included. \<^verbatim>\<open>SerializeFramePostscript\<close> writes the size it is
  given (lemma \<open>SerializeFramePostscript_head\<close>), but \<^verbatim>\<open>SerializeFieldsV1\<close> passes it the
  running total of all field records so far, and starts every record at the same address.
  For the example descriptor the records of \<open>hits\<close>, \<open>pt\<close> and \<open>_0\<close> take 58, 43 and 43
  bytes: the record of \<open>pt\<close>, emitted after that of \<open>hits\<close>, gets the head 101, and after
  the run the buffer begins with the record of \<open>_0\<close> (parent id 1, name length 2, name
  \<open>_0\<close>) under the head 144.
\<close>

theorem SerializeFieldsV1_head_is_running_total:
  "map record_bytes [field_hits, field_pt, field_item] = [58, 43, 43] \<and>
   \<not> isl (SerializeFieldsV1_body field_pt 0 58 16 zero_mem) \<and>
   \<not> Option.is_none (SerializeFieldsV1 4 example_desc RContext_default 16 zero_mem) \<and>
   \<not> isl (the (SerializeFieldsV1 4 example_desc RContext_default 16 zero_mem)) \<and>
   fst (projr (SerializeFieldsV1_body field_pt 0 58 16 zero_mem)) = 101 \<and>
   DeserializeInt32 (snd (projr (SerializeFieldsV1_body field_pt 0 58 16 zero_mem))) 16
     = (4, 101) \<and>
   fst (snd (projr (the (SerializeFieldsV1 4 example_desc RContext_default 16 zero_mem)))) = 144 \<and>
   DeserializeInt32
     (snd (snd (projr (the (SerializeFieldsV1 4 example_desc RContext_default 16 zero_mem))))) 16
     = (4, 144) \<and>
   mem_read
     (snd (snd (projr (the (SerializeFieldsV1 4 example_desc RContext_default 16 zero_mem))))) 28 14
     = [1, 0, 0, 0, 0, 0, 0, 0, 2, 0, 0, 0, 0x5F, 0x30]"
  by code_simp

lemma SerializeColumnsV1_body_unmapped:
  assumes "fMem2PhysColumnIDs ctx (fColumnFieldId c) = None"
  shows "SerializeColumnsV1_body bits c ctx sz buffer m = Inl Out_of_range"
  using assms
  by (simp add: SerializeColumnsV1_body_def GetPhysColumnId_def Let_def split_def)

text \<open>
  C1. The claim is that the header size stored in the context is the sum of all parts of the
  envelope, the field records included. \<^verbatim>\<open>SerializeHeaderV1\<close> does not add what
  \<^verbatim>\<open>SerializeFieldsV1\<close> returns to its position (it does for \<^verbatim>\<open>SerializeColumnsV1\<close>). For the
  example descriptor (name \<open>events\<close>, empty description, three fields below field-zero, no
  columns), written at a real buffer with any checksum function, the call returns normally
  and the stored size is 50: the preamble (4), the feature flags (8), the two strings (10
  and 4) and three list frame heads (8 each); the 144 bytes of field records are not
  counted.
\<close>

theorem SerializeHeaderV1_size_without_fields:
  "\<not> Option.is_none (SerializeHeaderV1 4 crc bits 16 example_desc zero_mem) \<and>
   \<not> isl (the (SerializeHeaderV1 4 crc bits 16 example_desc zero_mem)) \<and>
   fHeaderSize (fst (projr (the
     (SerializeHeaderV1 4 crc bits 16 example_desc zero_mem)))) = 50 \<and>
   fst (snd (projr (the (SerializeFieldsV1 4 example_desc RContext_default 16 zero_mem)))) = 144 \<and>
   4 + 8 + (4 + length (GetName example_desc)) + (4 + length (GetDescription example_desc))
     + 8 + 8 + 8 = (50 :: nat)"
  by code_simp

end
